theory Spec2Isabelle
  imports Complex_Main "HOL-Library.AList"
begin

section \<open>The ticker plugin of Cardinal (plugins/ticker/plugin.py)\<close>

text \<open>
  Prices and percentages are Python floats; they are modelled as real numbers, so rounding
  is outside the model. Every exception the plugin can raise is a value of \<open>exc\<close>, and a
  function that can raise returns \<open>exc + 'a\<close> with \<open>Inl\<close> for the exception.
\<close>

datatype exc =
  KeyError | TypeError | ValueError | ZeroDivisionError | UnboundLocalError
  | RequestException | AlreadyCancelled | AlreadyCalled

subsection \<open>Wall-clock time and the market clock\<close>

text \<open>
  The fields of \<open>est_now()\<close> that the plugin reads. \<open>weekday\<close> is Python's
  \<open>datetime.weekday()\<close>: Monday is 0 and Sunday is 6.
\<close>

record datetime =
  weekday :: int
  hour :: int
  minute :: int
  second :: int

definition market_is_open :: "datetime \<Rightarrow> bool" where
  "market_is_open now =
     (let is_market_closed =
            (weekday now \<ge> 5) \<or>
            (hour now < 9 \<or> hour now \<ge> 17) \<or>
            (hour now = 9 \<and> minute now < 30) \<or>
            (hour now = 16 \<and> minute now > 0)
      in \<not> is_market_closed)"

text \<open>\<open>float(new_value) / float(old_value) * 100 - 100\<close>; a float division by zero raises.\<close>

definition get_delta :: "real \<Rightarrow> real \<Rightarrow> exc + real" where
  "get_delta new_value old_value =
     (if old_value = 0 then Inl ZeroDivisionError
      else Inr (new_value / old_value * 100 - 100))"

text \<open>
  A coloured text. The text itself is \<open>'{:.2f}%'.format(percentage)\<close>; it is represented by
  the number it renders.
\<close>

datatype colored = light_green real | light_red real

definition colorize :: "real \<Rightarrow> colored" where
  "colorize percentage =
     (let message = percentage
      in if percentage > 0 then light_green message else light_red message)"

fun is_green :: "colored \<Rightarrow> bool" where
  "is_green (light_green m) = True"
| "is_green (light_red m) = False"

fun is_red :: "colored \<Rightarrow> bool" where
  "is_red (light_green m) = False"
| "is_red (light_red m) = True"

subsection \<open>Configuration\<close>

text \<open>
  \<open>self.config\<close>: the output channels, the configured stocks as (symbol, name) pairs in
  configured order, and the relay bots, whose fields may each be \<open>None\<close>.
\<close>

record relay_bot =
  bot_nick :: "string option"
  bot_user :: "string option"
  bot_vhost :: "string option"

record config =
  cfg_channels :: "string list"
  cfg_stocks :: "(string \<times> string) list"
  cfg_relay_bots :: "relay_bot list"

text \<open>
  \<open>OrderedDict(pairs)\<close>: a key keeps the position of its first occurrence and the value of
  its last, which is what \<open>AList.update\<close> does on an association list.
\<close>

definition ordered_dict :: "('k \<times> 'v) list \<Rightarrow> ('k \<times> 'v) list" where
  "ordered_dict pairs = fold (\<lambda>(k, v). AList.update k v) pairs []"

text \<open>The property \<open>self.stocks\<close>.\<close>

definition stocks :: "config \<Rightarrow> (string \<times> string) list" where
  "stocks cfg = ordered_dict (cfg_stocks cfg)"

subsection \<open>The flags computed by \<open>tick\<close>\<close>

text \<open>
  The local variables of \<open>tick\<close>, computed from \<open>now\<close> and from the configured channels
  and stocks (a Python list is true when it is not empty).
\<close>

record tick_flags =
  is_market_open :: bool
  is_open :: bool
  is_close :: bool
  should_do_predictions :: bool
  should_send_ticker :: bool

definition tick_classify :: "config \<Rightarrow> datetime \<Rightarrow> tick_flags" where
  "tick_classify cfg now =
     (let is_market_open = \<not> (
            (weekday now \<ge> 5) \<or>
            (hour now < 9 \<or> hour now \<ge> 17) \<or>
            (hour now = 9 \<and> minute now < 30) \<or>
            (hour now = 16 \<and> minute now > 0));
          is_open = (hour now = 9 \<and> minute now = 30);
          is_close = (hour now = 16 \<and> minute now = 0);
          should_do_predictions =
            (if is_market_open \<and> (is_open \<or> is_close) then True else False);
          should_send_ticker =
            (is_market_open \<and> cfg_channels cfg \<noteq> [] \<and> cfg_stocks cfg \<noteq> [])
      in \<lparr> is_market_open = is_market_open, is_open = is_open, is_close = is_close,
           should_do_predictions = should_do_predictions,
           should_send_ticker = should_send_ticker \<rparr>)"

subsection \<open>The timer: \<open>wait\<close>, \<open>close\<close> and the reactor\<close>

text \<open>
  A \<open>DelayedCall\<close> of the Twisted reactor: the delay it was armed with, in seconds, and
  whether it is still pending, has been called, or has been cancelled. Its \<open>cancel\<close> is
  Twisted's: it raises \<open>AlreadyCancelled\<close> on a cancelled call and \<open>AlreadyCalled\<close> on a
  call that has fired.
\<close>

datatype call_status = Pending | Called | Cancelled

record delayed_call =
  delay :: int
  status :: call_status

definition cancel :: "delayed_call \<Rightarrow> exc + delayed_call" where
  "cancel dc =
     (case status dc of
        Cancelled \<Rightarrow> Inl AlreadyCancelled
      | Called \<Rightarrow> Inl AlreadyCalled
      | Pending \<Rightarrow> Inr (dc\<lparr>status := Cancelled\<rparr>))"

text \<open>The plugin's \<open>self.call_id\<close>: \<open>None\<close> until \<open>wait\<close> has armed a timer.\<close>

record sched =
  call_id :: "delayed_call option"

text \<open>
  \<open>wait\<close> computes \<open>seconds_to_sleep\<close> and then arms the timer with
  \<open>minutes_to_sleep * 60\<close>, as the source does.
\<close>

definition wait_delay :: "datetime \<Rightarrow> int" where
  "wait_delay now =
     (let minutes_to_sleep = 15 - minute now mod 15;
          seconds_to_sleep = minutes_to_sleep * 60;
          seconds_to_sleep = seconds_to_sleep - second now
      in minutes_to_sleep * 60)"

definition wait :: "datetime \<Rightarrow> sched \<Rightarrow> sched" where
  "wait now s = s\<lparr>call_id := Some \<lparr>delay = wait_delay now, status = Pending\<rparr>\<rparr>"

definition close :: "sched \<Rightarrow> exc + sched" where
  "close s =
     (case call_id s of
        None \<Rightarrow> Inr s
      | Some dc \<Rightarrow>
          (case cancel dc of
             Inl e \<Rightarrow> (if e = AlreadyCancelled then Inr s else Inl e)
           | Inr dc' \<Rightarrow> Inr (s\<lparr>call_id := Some dc'\<rparr>)))"

text \<open>
  The scheduler as the reactor drives it. \<open>Fire now\<close>: the reactor calls the pending timer at
  time \<open>now\<close>; it marks the call as called and runs \<open>tick\<close>, whose first statement is
  \<open>self.wait()\<close>. The reactor fires pending calls only, so \<open>Fire\<close> on any other handle is
  not a step. \<open>Close\<close> is a call of \<open>close\<close>. \<open>init\<close> is the end of \<open>__init__\<close>.
\<close>

datatype event = Fire datetime | Close

definition init :: "datetime \<Rightarrow> sched" where
  "init now = wait now \<lparr>call_id = None\<rparr>"

definition fire :: "datetime \<Rightarrow> sched \<Rightarrow> sched" where
  "fire now s =
     (case call_id s of
        None \<Rightarrow> s
      | Some dc \<Rightarrow>
          (if status dc = Pending
           then wait now (s\<lparr>call_id := Some (dc\<lparr>status := Called\<rparr>)\<rparr>)
           else s))"

fun run :: "event list \<Rightarrow> sched \<Rightarrow> exc + sched" where
  "run [] s = Inr s"
| "run (Fire now # evs) s = run evs (fire now s)"
| "run (Close # evs) s = (case close s of Inl e \<Rightarrow> Inl e | Inr s' \<Rightarrow> run evs s')"

text \<open>The timer handle the plugin holds has not fired: it is pending or cancelled.\<close>

definition not_called :: "sched \<Rightarrow> bool" where
  "not_called s =
     (case call_id s of
        None \<Rightarrow> True
      | Some dc \<Rightarrow> status dc = Pending \<or> status dc = Cancelled)"

text \<open>
  The next quarter-hour boundary, from the spec's words: the time of day in seconds, and
  what it means for \<open>d\<close> to be the number of seconds from \<open>now\<close> until the next time whose
  minute is 0, 15, 30 or 45 and whose second is 0.
\<close>

definition seconds_of_day :: "datetime \<Rightarrow> int" where
  "seconds_of_day now = hour now * 3600 + minute now * 60 + second now"

definition on_boundary :: "int \<Rightarrow> bool" where
  "on_boundary t = (t mod 900 = 0)"

definition next_boundary_after :: "datetime \<Rightarrow> int \<Rightarrow> bool" where
  "next_boundary_after now d =
     (0 < d \<and> on_boundary (seconds_of_day now + d) \<and>
      (\<forall>e. 0 < e \<and> e < d \<longrightarrow> \<not> on_boundary (seconds_of_day now + e)))"

subsection \<open>The quote source\<close>

text \<open>
  Sequencing of computations that can raise: the second runs on the value of the first
  unless the first raised.
\<close>

definition ebind :: "exc + 'a \<Rightarrow> ('a \<Rightarrow> exc + 'b) \<Rightarrow> exc + 'b" where
  "ebind m f = (case m of Inl e \<Rightarrow> Inl e | Inr x \<Rightarrow> f x)"

text \<open>
  What \<open>requests.get\<close> followed by \<open>r.json()\<close> can give. A field of the response object is
  null, a number or a text; \<open>JStr\<close> holds text that \<open>float\<close> does not read as a number
  (numeric text is a \<open>JNum\<close>). The body is not JSON (\<open>r.json()\<close> raises \<open>ValueError\<close>), a
  JSON object, or another JSON value (a list, a number, a text, null), on which
  \<open>data['symbol']\<close> raises \<open>TypeError\<close>. The status code is part of the response; the source
  never reads it.
\<close>

datatype json = JNull | JNum real | JStr string

datatype body = NotJson | JsonObject "(string \<times> json) list" | JsonOther

datatype http_result = ConnectionFailed | Response nat body

record quote =
  q_symbol :: json
  q_price :: real
  q_previous_close :: real
  q_change :: real

definition py_float :: "json \<Rightarrow> exc + real" where
  "py_float v = (case v of JNum x \<Rightarrow> Inr x | JNull \<Rightarrow> Inl TypeError | JStr s \<Rightarrow> Inl ValueError)"

text \<open>\<open>d[k]\<close> on a dict.\<close>

definition getitem :: "('k \<times> 'v) list \<Rightarrow> 'k \<Rightarrow> exc + 'v" where
  "getitem d k = (case map_of d k of None \<Rightarrow> Inl KeyError | Some v \<Rightarrow> Inr v)"

text \<open>The dict display inside the \<open>try\<close> of \<open>make_iex_request\<close>, evaluated left to right.\<close>

definition quote_of_data :: "(string \<times> json) list \<Rightarrow> exc + quote" where
  "quote_of_data data =
     ebind (getitem data ''symbol'') (\<lambda>echo_symbol.
     ebind (getitem data ''latestPrice'') (\<lambda>lp.
     ebind (py_float lp) (\<lambda>price.
     ebind (getitem data ''previousClose'') (\<lambda>pc.
     ebind (py_float pc) (\<lambda>previous_close.
     ebind (getitem data ''changePercent'') (\<lambda>cp.
     ebind (py_float cp) (\<lambda>change_percent.
       Inr \<lparr> q_symbol = echo_symbol, q_price = price, q_previous_close = previous_close,
             q_change = change_percent * 100 \<rparr>)))))))"

text \<open>
  \<open>make_iex_request\<close>: a \<open>KeyError\<close> in the \<open>try\<close> is logged and the function falls off its
  end, returning Python's \<open>None\<close> (\<open>Inr None\<close>); every other exception reaches the caller.
\<close>

definition make_iex_request :: "http_result \<Rightarrow> exc + quote option" where
  "make_iex_request r =
     (case r of
        ConnectionFailed \<Rightarrow> Inl RequestException
      | Response status_code b \<Rightarrow>
          (case b of
             NotJson \<Rightarrow> Inl ValueError
           | JsonOther \<Rightarrow> Inl TypeError
           | JsonObject data \<Rightarrow>
               (case quote_of_data data of
                  Inl e \<Rightarrow> (if e = KeyError then Inr None else Inl e)
                | Inr q \<Rightarrow> Inr (Some q))))"

text \<open>The network is the environment: \<open>http symbol\<close> is what the request for \<open>symbol\<close> gives.\<close>

definition get_daily :: "(string \<Rightarrow> http_result) \<Rightarrow> string \<Rightarrow> exc + quote option" where
  "get_daily http symbol = make_iex_request (http symbol)"

text \<open>\<open>data[key]\<close> on the result of \<open>get_daily\<close>: subscripting \<open>None\<close> raises \<open>TypeError\<close>.\<close>

definition quote_field :: "(quote \<Rightarrow> 'a) \<Rightarrow> quote option \<Rightarrow> exc + 'a" where
  "quote_field field data = (case data of None \<Rightarrow> Inl TypeError | Some q \<Rightarrow> Inr (field q))"

subsection \<open>Messages\<close>

text \<open>
  The texts sent to a channel, by their \<open>format\<close> arguments in order. A ticker message is
  its parts, which the source joins with \<open>" | "\<close>.
\<close>

datatype ticker_part =
  TickerPart (part_name: string) (part_symbol: string) (part_change: colored)

datatype message =
    Ticker "ticker_part list"
  | PredictionError string
  | PredictionResult string string real colored string real colored string
  | ClosestGuess "string option" string nat real colored string real colored
  | CouldNotLookUp string
  | CheckResult string real colored
  | PredictionSet string string string real colored "(real \<times> colored \<times> string) option"

text \<open>
  \<open>for channel in self.config["channels"]: self.cardinal.sendMsg(channel, text)\<close>, where
  building the text can raise: with no channel the text is never built.
\<close>

definition send_all ::
  "string list \<Rightarrow> exc + message \<Rightarrow> (string \<times> message) list \<Rightarrow> exc + (string \<times> message) list" where
  "send_all channels text sent =
     (if channels = [] then Inr sent
      else case text of
             Inl e \<Rightarrow> Inl e
           | Inr msg \<Rightarrow> Inr (sent @ map (\<lambda>channel. (channel, msg)) channels))"

subsection \<open>The ticker\<close>

text \<open>
  \<open>errback\<close> and \<open>callback\<close> on the deferred of one symbol: a failure stays a failure, and
  \<open>callback\<close> raises \<open>TypeError\<close> on \<open>None\<close>. The key of the result is the symbol the response
  carries.
\<close>

definition ticker_result :: "exc + quote option \<Rightarrow> exc + (json \<times> real)" where
  "ticker_result d =
     (case d of
        Inl f \<Rightarrow> Inl f
      | Inr res \<Rightarrow>
          ebind (quote_field q_symbol res) (\<lambda>echo_symbol.
          ebind (quote_field q_change res) (\<lambda>chg. Inr (echo_symbol, chg))))"

text \<open>
  The loop over \<open>dl_results\<close>, which \<open>DeferredList\<close> gives in the order of the deferreds;
  \<open>add_result\<close> is its body.
\<close>

definition add_result :: "exc + (json \<times> real) \<Rightarrow> (json \<rightharpoonup> real) \<Rightarrow> (json \<rightharpoonup> real)" where
  "add_result r results =
     (case r of
        Inl f \<Rightarrow> results
      | Inr (echo_symbol, chg) \<Rightarrow> results(echo_symbol \<mapsto> chg))"

definition collect_results :: "(exc + (json \<times> real)) list \<Rightarrow> (json \<rightharpoonup> real)" where
  "collect_results dl_results = fold add_result dl_results Map.empty"

definition format_symbol :: "config \<Rightarrow> string \<Rightarrow> real \<Rightarrow> exc + ticker_part" where
  "format_symbol cfg symbol chg =
     ebind (getitem (stocks cfg) symbol) (\<lambda>name.
       Inr (TickerPart name symbol (colorize chg)))"

fun format_parts ::
  "config \<Rightarrow> (string \<times> string) list \<Rightarrow> (json \<rightharpoonup> real) \<Rightarrow> exc + ticker_part list" where
  "format_parts cfg [] results = Inr []"
| "format_parts cfg ((symbol, name) # items) results =
     (case results (JStr symbol) of
        None \<Rightarrow> format_parts cfg items results
      | Some chg \<Rightarrow>
          ebind (format_symbol cfg symbol chg) (\<lambda>part.
          ebind (format_parts cfg items results) (\<lambda>parts. Inr (part # parts))))"

definition format_ticker :: "config \<Rightarrow> (json \<rightharpoonup> real) \<Rightarrow> exc + message" where
  "format_ticker cfg results =
     ebind (format_parts cfg (stocks cfg) results) (\<lambda>message_parts. Inr (Ticker message_parts))"

definition send_ticker :: "config \<Rightarrow> (string \<Rightarrow> http_result) \<Rightarrow> exc + (string \<times> message) list" where
  "send_ticker cfg http =
     (let deferreds = map (\<lambda>(symbol, name). ticker_result (get_daily http symbol)) (stocks cfg);
          results = collect_results deferreds
      in ebind (format_ticker cfg results) (\<lambda>message.
           Inr (map (\<lambda>channel. (channel, message)) (cfg_channels cfg))))"

text \<open>
  Two readings of "the fetch of a configured symbol succeeded" for the ticker:
  \<open>ticker_succeeded\<close>, the deferred of the symbol ended in success; and \<open>echoed_by\<close>, the
  deferred of some configured symbol ended in success and carries this symbol as its key.
\<close>

definition ticker_succeeded :: "(string \<Rightarrow> http_result) \<Rightarrow> string \<Rightarrow> bool" where
  "ticker_succeeded http symbol =
     (case ticker_result (get_daily http symbol) of Inl f \<Rightarrow> False | Inr r \<Rightarrow> True)"

definition echoed_by :: "config \<Rightarrow> (string \<Rightarrow> http_result) \<Rightarrow> string \<Rightarrow> bool" where
  "echoed_by cfg http symbol =
     list_ex (\<lambda>(asked, name).
        case ticker_result (get_daily http asked) of
          Inl f \<Rightarrow> False
        | Inr (echo_symbol, chg) \<Rightarrow> echo_symbol = JStr symbol)
       (stocks cfg)"

text \<open>The quote source answers every configured symbol it answers with that symbol.\<close>

definition echoes_asked :: "config \<Rightarrow> (string \<Rightarrow> http_result) \<Rightarrow> bool" where
  "echoes_asked cfg http =
     list_all (\<lambda>(asked, name).
        case ticker_result (get_daily http asked) of
          Inl f \<Rightarrow> True
        | Inr (echo_symbol, chg) \<Rightarrow> echo_symbol = JStr asked)
       (stocks cfg)"

subsection \<open>The prediction store\<close>

text \<open>
  \<open>db['predictions']\<close>: a dict from symbol to a dict from nick to a prediction. Python dicts
  iterate in insertion order, so both are association lists; \<open>map_of\<close> reads a key,
  \<open>AList.update\<close> writes one (in place, or at the end when it is new) and \<open>AList.delete\<close>
  removes one.
\<close>

record prediction =
  p_when :: string
  p_base :: real
  p_prediction :: real

type_synonym predictions = "(string \<times> prediction) list"

type_synonym store = "(string \<times> predictions) list"

text \<open>\<open>save_prediction\<close>; \<open>when_text\<close> is \<open>est_now().strftime(...)\<close>.\<close>

definition save_prediction :: "string \<Rightarrow> store \<Rightarrow> string \<Rightarrow> string \<Rightarrow> real \<Rightarrow> real \<Rightarrow> store" where
  "save_prediction when_text db symbol nick base pred =
     (let predictions = (case map_of db symbol of None \<Rightarrow> [] | Some ps \<Rightarrow> ps);
          predictions = AList.update nick
            \<lparr> p_when = when_text, p_base = base, p_prediction = pred \<rparr> predictions
      in AList.update symbol predictions db)"

subsection \<open>Resolving predictions\<close>

definition send_prediction ::
  "config \<Rightarrow> datetime \<Rightarrow> string \<Rightarrow> string \<Rightarrow> prediction \<Rightarrow> real \<Rightarrow>
   (string \<times> message) list \<Rightarrow> exc + (string \<times> message) list" where
  "send_prediction cfg now nick symbol pred actual sent =
     (let market_open_close = (if market_is_open now then ''open'' else ''close'')
      in send_all (cfg_channels cfg)
           (ebind (get_delta (p_prediction pred) (p_base pred)) (\<lambda>d1.
            ebind (get_delta actual (p_base pred)) (\<lambda>d2.
              Inr (PredictionResult nick symbol (p_prediction pred) (colorize d1)
                     market_open_close actual (colorize d2) (p_when pred)))))
           sent)"

text \<open>
  The local variables of \<open>do_predictions\<close> that the loop over \<open>predictions.items()\<close>
  writes. \<open>loop_prediction\<close> is the loop variable \<open>prediction\<close>: it has function scope, so it
  keeps its last value after the loop, and is unbound (\<open>None\<close> here) until a loop has run.
\<close>

record locals =
  closest_prediction :: "real option"
  closest_delta :: "real option"
  closest_nick :: "string option"
  loop_prediction :: "prediction option"

text \<open>
  \<open>not closest_delta or delta < closest_delta\<close>: \<open>not\<close> is true of \<open>None\<close> and of the float
  zero.
\<close>

definition replaces_leader :: "real option \<Rightarrow> real \<Rightarrow> bool" where
  "replaces_leader leader_delta delta =
     (case leader_delta of None \<Rightarrow> True | Some cd \<Rightarrow> cd = 0 \<or> delta < cd)"

text \<open>
  The loop over \<open>list(predictions.items())\<close>. It returns the exception that ended it, if
  any, with the local variables and the messages sent so far.
\<close>

fun closest_loop ::
  "config \<Rightarrow> datetime \<Rightarrow> string \<Rightarrow> real \<Rightarrow> predictions \<Rightarrow> locals \<Rightarrow>
   (string \<times> message) list \<Rightarrow> exc option \<times> locals \<times> (string \<times> message) list" where
  "closest_loop cfg now symbol actual [] v sent = (None, v, sent)"
| "closest_loop cfg now symbol actual ((nick, pred) # items) v sent =
     (let v = v\<lparr>loop_prediction := Some pred\<rparr>;
          delta = \<bar>actual - p_prediction pred\<bar>;
          v = (if replaces_leader (closest_delta v) delta
               then v\<lparr>closest_prediction := Some (p_prediction pred),
                      closest_delta := Some delta,
                      closest_nick := Some nick\<rparr>
               else v)
      in case send_prediction cfg now nick symbol pred actual sent of
           Inl e \<Rightarrow> (Some e, v, sent)
         | Inr sent' \<Rightarrow> closest_loop cfg now symbol actual items v sent')"

text \<open>
  The summary text. Its arguments are evaluated in order: \<open>prediction['base']\<close> raises
  \<open>UnboundLocalError\<close> when no loop has run yet, and \<open>get_delta\<close> raises \<open>TypeError\<close> on a
  \<open>closest_prediction\<close> that is \<open>None\<close>.
\<close>

definition closest_text :: "datetime \<Rightarrow> string \<Rightarrow> real \<Rightarrow> predictions \<Rightarrow> locals \<Rightarrow> exc + message" where
  "closest_text now symbol actual predictions v =
     (let market_open_close = (if market_is_open now then ''open'' else ''close'')
      in case loop_prediction v of
           None \<Rightarrow> Inl UnboundLocalError
         | Some pred \<Rightarrow>
             (case closest_prediction v of
                None \<Rightarrow> Inl TypeError
              | Some cp \<Rightarrow>
                  ebind (get_delta cp (p_base pred)) (\<lambda>d1.
                  ebind (get_delta actual (p_base pred)) (\<lambda>d2.
                    Inr (ClosestGuess (closest_nick v) symbol (length predictions) cp
                           (colorize d1) market_open_close actual (colorize d2))))))"

text \<open>
  The state \<open>do_predictions\<close> works on: the store, the messages sent, and the loop variable
  \<open>prediction\<close>, which survives from one symbol to the next.
\<close>

record dp_state =
  dp_db :: store
  dp_sent :: "(string \<times> message) list"
  dp_prediction :: "prediction option"

text \<open>
  The body of the loop over \<open>predicted_symbols\<close> after a successful fetch: read and delete
  the symbol's predictions, find the closest, report each prediction, send the summary.
\<close>

definition resolve_symbol ::
  "config \<Rightarrow> datetime \<Rightarrow> string \<Rightarrow> real \<Rightarrow> dp_state \<Rightarrow> exc option \<times> dp_state" where
  "resolve_symbol cfg now symbol actual st =
     (case getitem (dp_db st) symbol of
        Inl e \<Rightarrow> (Some e, st)
      | Inr predictions \<Rightarrow>
          (let st = st\<lparr>dp_db := AList.delete symbol (dp_db st)\<rparr>;
               v0 = \<lparr> closest_prediction = None, closest_delta = None, closest_nick = None,
                      loop_prediction = dp_prediction st \<rparr>
           in case closest_loop cfg now symbol actual predictions v0 (dp_sent st) of
                (Some e, v, sent) \<Rightarrow>
                  (Some e, st\<lparr>dp_sent := sent, dp_prediction := loop_prediction v\<rparr>)
              | (None, v, sent) \<Rightarrow>
                  (let st = st\<lparr>dp_sent := sent, dp_prediction := loop_prediction v\<rparr>
                   in case send_all (cfg_channels cfg)
                             (closest_text now symbol actual predictions v) sent of
                        Inl e \<Rightarrow> (Some e, st)
                      | Inr sent' \<Rightarrow> (None, st\<lparr>dp_sent := sent'\<rparr>))))"

text \<open>
  The loop over \<open>predicted_symbols\<close>. The \<open>try\<close> covers the fetch and \<open>data['price']\<close>; on any
  exception there the error text goes to every channel and the loop continues. The pauses
  (\<open>util.sleep\<close>) do nothing in the model, and \<open>now\<close> is one time for the whole round: it
  decides only the word "open" or "close" in the texts.
\<close>

fun predictions_loop ::
  "config \<Rightarrow> datetime \<Rightarrow> (string \<Rightarrow> http_result) \<Rightarrow> string list \<Rightarrow> dp_state \<Rightarrow>
   exc option \<times> dp_state" where
  "predictions_loop cfg now http [] st = (None, st)"
| "predictions_loop cfg now http (symbol # rest) st =
     (case ebind (get_daily http symbol) (quote_field q_price) of
        Inl e \<Rightarrow>
          predictions_loop cfg now http rest
            (st\<lparr>dp_sent := dp_sent st @
                   map (\<lambda>channel. (channel, PredictionError symbol)) (cfg_channels cfg)\<rparr>)
      | Inr actual \<Rightarrow>
          (case resolve_symbol cfg now symbol actual st of
             (Some e, st') \<Rightarrow> (Some e, st')
           | (None, st') \<Rightarrow> predictions_loop cfg now http rest st'))"

definition do_predictions ::
  "config \<Rightarrow> datetime \<Rightarrow> (string \<Rightarrow> http_result) \<Rightarrow> store \<Rightarrow> exc option \<times> dp_state" where
  "do_predictions cfg now http db =
     (let predicted_symbols = map fst db
      in predictions_loop cfg now http predicted_symbols
           \<lparr> dp_db = db, dp_sent = [], dp_prediction = None \<rparr>)"

text \<open>
  Whether the fetch of a symbol in a resolution round succeeded: the \<open>try\<close> of the loop
  gave the actual price.
\<close>

definition fetch_succeeded :: "(string \<Rightarrow> http_result) \<Rightarrow> string \<Rightarrow> bool" where
  "fetch_succeeded http symbol =
     (case ebind (get_daily http symbol) (quote_field q_price) of
        Inl e \<Rightarrow> False | Inr actual \<Rightarrow> True)"

text \<open>
  A store as \<open>save_prediction\<close> builds it from prices that are not zero: the symbols are
  distinct keys, every symbol has at least one prediction, and no base price is zero.
\<close>

definition proper_store :: "store \<Rightarrow> bool" where
  "proper_store db =
     (distinct (map fst db) \<and>
      list_all (\<lambda>(symbol, predictions).
         predictions \<noteq> [] \<and> list_all (\<lambda>(nick, pred). p_base pred \<noteq> 0) predictions) db)"

subsection \<open>The commands \<open>!check\<close> and \<open>!predict\<close>\<close>

text \<open>
  The user who sent the message, and the groups of the regular expression the message
  matched (the handler runs on matching messages only): group 1 is the relayed nick,
  group 2 the symbol, group 3 the sign, group 4 the percentage and group 5 the price, the
  last two already read by \<open>float\<close>. A group that took no part in the match is \<open>None\<close>.
\<close>

record user_info =
  u_nick :: string
  u_user :: string
  u_vhost :: string

definition is_relay_bot :: "config \<Rightarrow> user_info \<Rightarrow> bool" where
  "is_relay_bot cfg usr =
     list_ex (\<lambda>bot.
        (bot_nick bot = None \<or> bot_nick bot = Some (u_nick usr)) \<and>
        (bot_user bot = None \<or> bot_user bot = Some (u_user usr)) \<and>
        (bot_vhost bot = None \<or> bot_vhost bot = Some (u_vhost usr)))
       (cfg_relay_bots cfg)"

text \<open>\<open>str.upper\<close> on the letters a symbol can hold.\<close>

definition upper :: "string \<Rightarrow> string" where
  "upper s =
     map (\<lambda>c. let n = (of_char c :: nat)
              in if 97 \<le> n \<and> n \<le> 122 then char_of (n - 32) else c) s"

text \<open>Python's truth value of \<open>match.group(1)\<close>.\<close>

definition group_given :: "string option \<Rightarrow> bool" where
  "group_given g = (case g of None \<Rightarrow> False | Some s \<Rightarrow> s \<noteq> [])"

text \<open>
  \<open>check\<close>. \<open>strip_formatting\<close> is \<open>cardinal.util.strip_formatting\<close>, which is not part of
  the plugin and is taken as a parameter. The \<open>try\<close> covers the fetch only;
  \<open>data['price']\<close> is outside it.
\<close>

definition check ::
  "(string \<Rightarrow> string) \<Rightarrow> config \<Rightarrow> (string \<Rightarrow> http_result) \<Rightarrow> user_info \<Rightarrow> string \<Rightarrow>
   string option \<Rightarrow> string \<Rightarrow> exc + (string \<times> message) list" where
  "check strip_formatting cfg http usr channel group1 group2 =
     (if group_given group1 \<and> \<not> is_relay_bot cfg usr then Inr []
      else
        (let nick = (case group1 of
                       None \<Rightarrow> u_nick usr
                     | Some g \<Rightarrow> if g = [] then u_nick usr else strip_formatting g);
             symbol = upper group2
         in case get_daily http symbol of
              Inl e \<Rightarrow> Inr [(channel, CouldNotLookUp nick)]
            | Inr data \<Rightarrow>
                ebind (quote_field q_price data) (\<lambda>price.
                ebind (quote_field q_change data) (\<lambda>chg.
                  Inr [(channel, CheckResult symbol price (colorize chg))]))))"

text \<open>
  \<open>parse_prediction\<close>. \<open>if percentage\<close> and \<open>elif price\<close> test Python truth, which a float
  has unless it is zero; \<open>no_percentage\<close> is the rest of the chain, from \<open>elif price\<close> on.
\<close>

definition parse_prediction ::
  "(string \<Rightarrow> string) \<Rightarrow> config \<Rightarrow> datetime \<Rightarrow> (string \<Rightarrow> http_result) \<Rightarrow> user_info \<Rightarrow>
   string option \<Rightarrow> string \<Rightarrow> string option \<Rightarrow> real option \<Rightarrow> real option \<Rightarrow>
   exc + (string \<times> string \<times> real \<times> real) option" where
  "parse_prediction strip_formatting cfg now http usr group1 group2 group3 group4 group5 =
     (if group_given group1 \<and> \<not> is_relay_bot cfg usr then Inr None
      else
        (let nick = (case group1 of
                       None \<Rightarrow> u_nick usr
                     | Some g \<Rightarrow> if g = [] then u_nick usr else strip_formatting g);
             symbol = upper group2
         in ebind (get_daily http symbol) (\<lambda>data.
            ebind (if market_is_open now then quote_field q_previous_close data
                   else quote_field q_price data) (\<lambda>base.
              (let negative_percentage = (group3 = Some ''-'');
                   percentage = group4;
                   price = group5;
                   no_percentage =
                     (case price of
                        None \<Rightarrow> Inr None
                      | Some pr \<Rightarrow> if pr = 0 then Inr None else Inr (Some (nick, symbol, pr, base)))
               in case percentage of
                    None \<Rightarrow> no_percentage
                  | Some pct \<Rightarrow>
                      if pct = 0 then no_percentage
                      else
                        (let pred = pct * (1 / 100) * base;
                             pred = (if negative_percentage then base - pred else base + pred)
                         in Inr (Some (nick, symbol, pred, base))))))))"

text \<open>
  \<open>predict\<close>: the exception that escapes it, if any, the store and the messages sent.
  \<open>when_text\<close> is the text of the current time that \<open>save_prediction\<close> stores.
\<close>

definition old_prediction_text :: "store \<Rightarrow> string \<Rightarrow> string \<Rightarrow> exc + (real \<times> colored \<times> string) option" where
  "old_prediction_text db symbol nick =
     (case ebind (getitem db symbol) (\<lambda>ps. getitem ps nick) of
        Inl e \<Rightarrow> Inr None
      | Inr old_prediction \<Rightarrow>
          ebind (get_delta (p_prediction old_prediction) (p_base old_prediction)) (\<lambda>d.
            Inr (Some (p_prediction old_prediction, colorize d, p_when old_prediction))))"

definition predict ::
  "(string \<Rightarrow> string) \<Rightarrow> config \<Rightarrow> datetime \<Rightarrow> string \<Rightarrow> (string \<Rightarrow> http_result) \<Rightarrow> store \<Rightarrow>
   user_info \<Rightarrow> string \<Rightarrow> string option \<Rightarrow> string \<Rightarrow> string option \<Rightarrow> real option \<Rightarrow>
   real option \<Rightarrow> exc option \<times> store \<times> (string \<times> message) list" where
  "predict strip_formatting cfg now when_text http db usr channel
       group1 group2 group3 group4 group5 =
     (case parse_prediction strip_formatting cfg now http usr
             group1 group2 group3 group4 group5 of
        Inl e \<Rightarrow> (None, db, [(channel, CouldNotLookUp (u_nick usr))])
      | Inr None \<Rightarrow> (None, db, [])
      | Inr (Some (nick, symbol, pred, base)) \<Rightarrow>
          (case old_prediction_text db symbol nick of
             Inl e \<Rightarrow> (Some e, db, [])
           | Inr old_str \<Rightarrow>
               (let db' = save_prediction when_text db symbol nick base pred
                in case get_delta pred base of
                     Inl e \<Rightarrow> (Some e, db', [])
                   | Inr d \<Rightarrow>
                       (None, db',
                        [(channel,
                          PredictionSet nick symbol
                            (if market_is_open now then ''close'' else ''open'')
                            pred (colorize d) old_str)]))))"

section \<open>Properties\<close>

subsection \<open>Colours\<close>

text \<open>
  C9, as amended. The claim has the digest entry green for every non-negative change,
  zero included. \<open>colorize\<close> tests \<open>percentage > 0\<close>: the entry is green exactly when the
  change is strictly positive, and red when it is zero or negative.
\<close>

theorem colorize_green_iff_positive:
  "is_green (colorize p) = (0 < p) \<and> is_red (colorize p) = (p \<le> 0)"
  by (auto simp: colorize_def)

text \<open>C9 as stated fails at a change of exactly zero, which is coloured red.\<close>

theorem colorize_zero_is_red:
  "colorize 0 = light_red 0 \<and> \<not> is_green (colorize 0)"
  by (simp add: colorize_def)

subsection \<open>The market clock\<close>

text \<open>
  C7, as amended. The open flag of \<open>tick\<close> is true exactly when the hour is 9 and the
  minute is 30, and the close flag exactly when the hour is 16 and the minute is 0, on any
  day of the week and at any second of that minute. The weekday enters through
  \<open>is_market_open\<close> only: predictions are resolved exactly on a weekday at 09:30 or 16:00.
\<close>

theorem tick_boundary_flags:
  "is_open (tick_classify cfg now) = (hour now = 9 \<and> minute now = 30) \<and>
   is_close (tick_classify cfg now) = (hour now = 16 \<and> minute now = 0) \<and>
   should_do_predictions (tick_classify cfg now) =
     (weekday now < 5 \<and>
      ((hour now = 9 \<and> minute now = 30) \<or> (hour now = 16 \<and> minute now = 0)))"
  by (auto simp: tick_classify_def Let_def)

text \<open>
  C7 as stated fails on a Saturday at 09:30: the open flag is true and the day is not a
  weekday.
\<close>

theorem tick_is_open_on_saturday:
  "is_open (tick_classify
      \<lparr>cfg_channels = [''#c''], cfg_stocks = [(''AAA'', ''Triple A'')], cfg_relay_bots = []\<rparr>
      \<lparr>weekday = 5, hour = 9, minute = 30, second = 0\<rparr>) \<and>
   \<not> (weekday \<lparr>weekday = 5, hour = 9, minute = 30, second = 0\<rparr> < 5)"
  by (simp add: tick_classify_def)

subsection \<open>Arming the timer\<close>

lemma wait_delay_eq: "wait_delay now = (15 - minute now mod 15) * 60"
  by (simp add: wait_delay_def Let_def)

lemma quarter_split:
  fixes h m :: int
  shows "h * 3600 + m * 60 = 900 * (h * 4 + m div 15) + 60 * (m mod 15)"
proof -
  have "m = 15 * (m div 15) + m mod 15" by simp
  then have "60 * m = 900 * (m div 15) + 60 * (m mod 15)" by linarith
  then show ?thesis by (simp add: algebra_simps)
qed

text \<open>
  C3, as amended. When \<open>wait\<close> runs at a whole minute (the seconds of the clock are 0), the
  delay it arms is exactly the number of seconds until the next quarter-hour boundary
  after now. At 09:47:00 that is 780 seconds: the timer fires at 10:00:00.
\<close>

theorem wait_delay_whole_minute:
  assumes "second now = 0"
  shows "next_boundary_after now (wait_delay now)"
proof -
  define r where "r = minute now mod 15"
  define q where "q = hour now * 4 + minute now div 15"
  have r: "0 \<le> r" "r < 15" by (simp_all add: r_def)
  have t: "seconds_of_day now = 900 * q + 60 * r"
    using assms quarter_split [of "hour now" "minute now"]
    by (simp add: seconds_of_day_def q_def r_def)
  have d: "wait_delay now = (15 - r) * 60" by (simp add: wait_delay_eq r_def)
  have pos: "0 < wait_delay now" using r by (simp add: d)
  have "seconds_of_day now + wait_delay now = 900 * (q + 1)"
    by (simp add: t d algebra_simps)
  then have onb: "on_boundary (seconds_of_day now + wait_delay now)"
    by (simp add: on_boundary_def)
  have least: "\<not> on_boundary (seconds_of_day now + e)" if e: "0 < e" "e < wait_delay now" for e
  proof -
    have b: "0 < 60 * r + e" "60 * r + e < 900" using e r by (simp_all add: d)
    have "(seconds_of_day now + e) mod 900 = (60 * r + e + q * 900) mod 900"
      by (simp add: t algebra_simps)
    also have "\<dots> = (60 * r + e) mod 900" by (rule mod_mult_self1)
    also have "\<dots> = 60 * r + e" using b by (simp add: mod_pos_pos_trivial)
    finally show ?thesis using b by (simp add: on_boundary_def)
  qed
  show ?thesis
    unfolding next_boundary_after_def using pos onb least by blast
qed

theorem wait_delay_whole_minute_witness:
  "second \<lparr>weekday = 0, hour = 9, minute = 47, second = 0\<rparr> = 0 \<and>
   wait_delay \<lparr>weekday = 0, hour = 9, minute = 47, second = 0\<rparr> = 780 \<and>
   next_boundary_after \<lparr>weekday = 0, hour = 9, minute = 47, second = 0\<rparr> 780"
  using wait_delay_whole_minute [of "\<lparr>weekday = 0, hour = 9, minute = 47, second = 0\<rparr>"]
  by (simp add: wait_delay_def)

text \<open>
  C3 as stated fails at 09:47:00: the timer is armed for 10:00:00, the next quarter-hour
  boundary, and not for 09:50:00.
\<close>

theorem wait_0947_arms_1000:
  "seconds_of_day \<lparr>weekday = 0, hour = 9, minute = 47, second = 0\<rparr>
     + wait_delay \<lparr>weekday = 0, hour = 9, minute = 47, second = 0\<rparr>
   = seconds_of_day \<lparr>weekday = 0, hour = 10, minute = 0, second = 0\<rparr> \<and>
   seconds_of_day \<lparr>weekday = 0, hour = 9, minute = 47, second = 0\<rparr>
     + wait_delay \<lparr>weekday = 0, hour = 9, minute = 47, second = 0\<rparr>
   \<noteq> seconds_of_day \<lparr>weekday = 0, hour = 9, minute = 50, second = 0\<rparr>"
  by (simp add: wait_delay_def seconds_of_day_def)

text \<open>
  \<open>wait\<close> computes \<open>seconds_to_sleep\<close> and does not use it: away from a whole minute the
  armed delay overshoots the boundary by the seconds of the clock.
\<close>

lemma wait_ignores_seconds:
  "wait_delay \<lparr>weekday = 0, hour = 9, minute = 47, second = 30\<rparr> = 780 \<and>
   \<not> next_boundary_after \<lparr>weekday = 0, hour = 9, minute = 47, second = 30\<rparr> 780"
  by (simp add: wait_delay_def seconds_of_day_def next_boundary_after_def on_boundary_def)

subsection \<open>Stopping the scheduler\<close>

lemma not_called_init: "not_called (init now)"
  by (simp add: not_called_def init_def wait_def)

lemma not_called_fire: "not_called s \<Longrightarrow> not_called (fire now s)"
  by (auto simp: not_called_def fire_def wait_def split: option.splits)

lemma close_pending:
  "call_id s = Some dc \<Longrightarrow> status dc = Pending \<Longrightarrow>
   close s = Inr (s\<lparr>call_id := Some (dc\<lparr>status := Cancelled\<rparr>)\<rparr>)"
  by (simp add: close_def cancel_def)

lemma close_cancelled:
  "call_id s = Some dc \<Longrightarrow> status dc = Cancelled \<Longrightarrow> close s = Inr s"
  by (simp add: close_def cancel_def)

lemma close_unarmed: "call_id s = None \<Longrightarrow> close s = Inr s"
  by (simp add: close_def)

lemma not_called_close:
  assumes "not_called s"
  shows "\<exists>s'. close s = Inr s' \<and> not_called s'"
proof (cases "call_id s")
  case None
  with assms show ?thesis by (simp add: close_unarmed)
next
  case (Some dc)
  with assms have "status dc = Pending \<or> status dc = Cancelled"
    by (simp add: not_called_def)
  then show ?thesis
  proof
    assume "status dc = Pending"
    with Some show ?thesis by (simp add: close_pending not_called_def)
  next
    assume "status dc = Cancelled"
    with Some assms show ?thesis by (simp add: close_cancelled)
  qed
qed

lemma run_not_called: "not_called s \<Longrightarrow> \<exists>s'. run evs s = Inr s' \<and> not_called s'"
proof (induction evs arbitrary: s)
  case Nil
  then show ?case by simp
next
  case (Cons ev evs)
  show ?case
  proof (cases ev)
    case (Fire now)
    with Cons.IH [OF not_called_fire [OF Cons.prems, of now]] show ?thesis by simp
  next
    case Close
    from not_called_close [OF Cons.prems] obtain s1 where s1: "close s = Inr s1" "not_called s1"
      by blast
    with Cons.IH [OF s1(2)] Close show ?thesis by simp
  qed
qed

text \<open>
  C8. \<open>close\<close> cancels the pending timer it holds; on a timer that is already cancelled,
  or when none has been armed, it returns without raising and changes nothing. A timer
  that has fired never makes \<open>close\<close> raise: every fire re-arms a new timer before
  anything else, so from \<open>__init__\<close> on, whatever the order of fires and calls of \<open>close\<close>,
  no call of \<open>close\<close> has raised, the handle held is pending or cancelled, and a further
  call of \<open>close\<close> returns.
\<close>

theorem close_cancels_pending_timer:
  "(call_id s = Some dc \<and> status dc = Pending \<longrightarrow>
      close s = Inr (s\<lparr>call_id := Some (dc\<lparr>status := Cancelled\<rparr>)\<rparr>)) \<and>
   (call_id s = None \<or> (call_id s = Some dc \<and> status dc = Cancelled) \<longrightarrow> close s = Inr s) \<and>
   (\<exists>s' s''. run evs (init now) = Inr s' \<and> not_called s' \<and> close s' = Inr s'')"
proof -
  from run_not_called [OF not_called_init, of evs now]
  obtain s' where s': "run evs (init now) = Inr s'" "not_called s'" by blast
  from not_called_close [OF s'(2)] obtain s'' where "close s' = Inr s''" by blast
  with s' have "\<exists>s' s''. run evs (init now) = Inr s' \<and> not_called s' \<and> close s' = Inr s''"
    by blast
  then show ?thesis
    using close_pending [of s dc] close_cancelled [of s dc] close_unarmed [of s] by blast
qed

theorem close_cancels_pending_timer_witness:
  "call_id (init \<lparr>weekday = 0, hour = 9, minute = 47, second = 0\<rparr>)
     = Some \<lparr>delay = 780, status = Pending\<rparr> \<and>
   close (init \<lparr>weekday = 0, hour = 9, minute = 47, second = 0\<rparr>)
     = Inr \<lparr>call_id = Some \<lparr>delay = 780, status = Cancelled\<rparr>\<rparr> \<and>
   close \<lparr>call_id = Some \<lparr>delay = 780, status = Cancelled\<rparr>\<rparr>
     = Inr \<lparr>call_id = Some \<lparr>delay = 780, status = Cancelled\<rparr>\<rparr> \<and>
   run [Fire \<lparr>weekday = 0, hour = 10, minute = 0, second = 0\<rparr>]
       (init \<lparr>weekday = 0, hour = 9, minute = 47, second = 0\<rparr>)
     = Inr \<lparr>call_id = Some \<lparr>delay = 900, status = Pending\<rparr>\<rparr> \<and>
   run [Fire \<lparr>weekday = 0, hour = 10, minute = 0, second = 0\<rparr>, Close, Close]
       (init \<lparr>weekday = 0, hour = 9, minute = 47, second = 0\<rparr>)
     = Inr \<lparr>call_id = Some \<lparr>delay = 900, status = Cancelled\<rparr>\<rparr>"
  using close_cancels_pending_timer
    [where s = "init \<lparr>weekday = 0, hour = 9, minute = 47, second = 0\<rparr>"
       and dc = "\<lparr>delay = 780, status = Pending\<rparr>"
       and evs = "[Fire \<lparr>weekday = 0, hour = 10, minute = 0, second = 0\<rparr>, Close, Close]"
       and now = "\<lparr>weekday = 0, hour = 9, minute = 47, second = 0\<rparr>"]
  by (simp add: init_def wait_def wait_delay_def fire_def close_def cancel_def)

text \<open>
  The one handle on which \<open>close\<close> would raise is a fired one that is still held, since it
  catches \<open>AlreadyCancelled\<close> only; by \<open>run_not_called\<close> no run of the scheduler holds one.
\<close>

lemma close_on_held_fired_handle:
  "close \<lparr>call_id = Some \<lparr>delay = 780, status = Called\<rparr>\<rparr> = Inl AlreadyCalled"
  by (simp add: close_def cancel_def)

subsection \<open>Resolving predictions\<close>

lemma send_prediction_cases:
  "send_prediction cfg now nick symbol pred actual sent =
     (if cfg_channels cfg = [] then Inr sent
      else if p_base pred = 0 then Inl ZeroDivisionError
      else Inr (sent @ map (\<lambda>channel. (channel,
             PredictionResult nick symbol (p_prediction pred)
               (colorize (p_prediction pred / p_base pred * 100 - 100))
               (if market_is_open now then ''open'' else ''close'') actual
               (colorize (actual / p_base pred * 100 - 100)) (p_when pred)))
             (cfg_channels cfg)))"
  by (simp add: send_prediction_def send_all_def get_delta_def ebind_def)

lemma closest_loop_keeps_closest:
  "closest_loop cfg now symbol actual items v sent = (err, v', sent') \<Longrightarrow>
   closest_prediction v \<noteq> None \<Longrightarrow> closest_prediction v' \<noteq> None"
proof (induction items arbitrary: v sent)
  case Nil
  then show ?case by simp
next
  case (Cons item items)
  obtain nick pred where item: "item = (nick, pred)" by (cases item)
  show ?case
  proof (cases "send_prediction cfg now nick symbol pred actual sent")
    case (Inl e)
    with Cons.prems item show ?thesis by (auto simp: Let_def split: if_splits)
  next
    case (Inr sent1)
    with Cons.prems item show ?thesis
      by (auto simp: Let_def split: if_splits dest!: Cons.IH)
  qed
qed

lemma closest_loop_sets_closest:
  assumes "closest_loop cfg now symbol actual items v sent = (err, v', sent')"
    and "items \<noteq> []" and "closest_delta v = None"
  shows "closest_prediction v' \<noteq> None"
proof -
  obtain nick pred rest where items: "items = (nick, pred) # rest"
    using assms(2) by (cases items) auto
  show ?thesis
  proof (cases "send_prediction cfg now nick symbol pred actual sent")
    case (Inl e)
    with assms items show ?thesis by (auto simp: Let_def replaces_leader_def)
  next
    case (Inr sent1)
    with assms items show ?thesis
      by (auto simp: Let_def replaces_leader_def dest!: closest_loop_keeps_closest)
  qed
qed

lemma closest_loop_last:
  "closest_loop cfg now symbol actual items v sent = (None, v', sent') \<Longrightarrow>
   items \<noteq> [] \<Longrightarrow> loop_prediction v' = Some (snd (last items))"
proof (induction items arbitrary: v sent)
  case Nil
  then show ?case by simp
next
  case (Cons item items)
  obtain nick pred where item: "item = (nick, pred)" by (cases item)
  show ?case
  proof (cases "send_prediction cfg now nick symbol pred actual sent")
    case (Inl e)
    with Cons.prems item show ?thesis by (auto simp: Let_def split: if_splits)
  next
    case (Inr sent1)
    show ?thesis
    proof (cases "items = []")
      case True
      with Cons.prems item Inr show ?thesis by (auto simp: Let_def split: if_splits)
    next
      case False
      with Cons.prems item Inr show ?thesis
        by (auto simp: Let_def split: if_splits dest!: Cons.IH)
    qed
  qed
qed

text \<open>
  C1: the code at its failing input. \<open>u1\<close> predicted the actual price of 100 exactly and
  \<open>u2\<close> predicted 105. The leader's delta is then the float zero, which
  \<open>not closest_delta\<close> takes for "no leader yet", so \<open>u2\<close> replaces \<open>u1\<close> with the larger
  delta 5: the summary names \<open>u2\<close> as the closest guess, where the claim has \<open>u1\<close>.
\<close>

theorem closest_guess_exact_leader_replaced:
  "do_predictions
     \<lparr>cfg_channels = [''#c''], cfg_stocks = [], cfg_relay_bots = []\<rparr>
     \<lparr>weekday = 0, hour = 9, minute = 30, second = 0\<rparr>
     (\<lambda>symbol. Response 200 (JsonObject
        [(''symbol'', JStr ''AAA''), (''latestPrice'', JNum 100),
         (''previousClose'', JNum 100), (''changePercent'', JNum 0)]))
     [(''AAA'', [(''u1'', \<lparr>p_when = ''t1'', p_base = 100, p_prediction = 100\<rparr>),
                (''u2'', \<lparr>p_when = ''t2'', p_base = 100, p_prediction = 105\<rparr>)])]
   = (None,
      \<lparr>dp_db = [],
       dp_sent =
         [(''#c'', PredictionResult ''u1'' ''AAA'' 100 (light_red 0) ''open'' 100
                    (light_red 0) ''t1''),
          (''#c'', PredictionResult ''u2'' ''AAA'' 105 (light_green 5) ''open'' 100
                    (light_red 0) ''t2''),
          (''#c'', ClosestGuess (Some ''u2'') ''AAA'' 2 105 (light_green 5) ''open'' 100
                    (light_red 0))],
       dp_prediction = Some \<lparr>p_when = ''t2'', p_base = 100, p_prediction = 105\<rparr>\<rparr>)"
  by (simp add: do_predictions_def get_daily_def make_iex_request_def quote_of_data_def
      ebind_def getitem_def py_float_def quote_field_def resolve_symbol_def send_prediction_def
      send_all_def closest_text_def replaces_leader_def get_delta_def colorize_def
      market_is_open_def)

text \<open>
  Away from that input the loop does what the spec says: when no prediction equals the
  actual price, the closest guess is the first pair of the snapshot with the least
  absolute delta. Every pair before it has a strictly larger delta, and none after it a
  smaller one.
\<close>

lemma closest_loop_Cons:
  assumes "closest_loop cfg now symbol actual ((nick, pred) # items) v sent = (None, v', sent')"
  shows "\<exists>sent1. closest_loop cfg now symbol actual items
           (if replaces_leader (closest_delta v) \<bar>actual - p_prediction pred\<bar>
            then v\<lparr>loop_prediction := Some pred,
                   closest_prediction := Some (p_prediction pred),
                   closest_delta := Some \<bar>actual - p_prediction pred\<bar>,
                   closest_nick := Some nick\<rparr>
            else v\<lparr>loop_prediction := Some pred\<rparr>) sent1 = (None, v', sent')"
proof (cases "send_prediction cfg now nick symbol pred actual sent")
  case (Inl e)
  with assms show ?thesis by (simp add: Let_def split: if_splits)
next
  case (Inr sent1)
  with assms show ?thesis by (auto simp: Let_def split: if_splits)
qed

lemma closest_loop_leader:
  "closest_loop cfg now symbol actual items v sent = (None, v', sent') \<Longrightarrow>
   closest_delta v = Some cd \<Longrightarrow> 0 < cd \<Longrightarrow>
   list_all (\<lambda>(m, q). p_prediction q \<noteq> actual) items \<Longrightarrow>
   (closest_nick v' = closest_nick v \<and> closest_delta v' = Some cd \<and>
    closest_prediction v' = closest_prediction v \<and>
    list_all (\<lambda>(m, q). cd \<le> \<bar>actual - p_prediction q\<bar>) items) \<or>
   (\<exists>pre n p post. items = pre @ (n, p) # post \<and>
      closest_nick v' = Some n \<and> closest_delta v' = Some \<bar>actual - p_prediction p\<bar> \<and>
      closest_prediction v' = Some (p_prediction p) \<and>
      \<bar>actual - p_prediction p\<bar> < cd \<and>
      list_all (\<lambda>(m, q). \<bar>actual - p_prediction p\<bar> < \<bar>actual - p_prediction q\<bar>) pre \<and>
      list_all (\<lambda>(m, q). \<bar>actual - p_prediction p\<bar> \<le> \<bar>actual - p_prediction q\<bar>) post)"
proof (induction items arbitrary: v sent cd)
  case Nil
  then show ?case by simp
next
  case (Cons item items)
  obtain n1 p1 where item: "item = (n1, p1)" by (cases item)
  define d1 where "d1 = \<bar>actual - p_prediction p1\<bar>"
  from Cons.prems(4) item have d1pos: "0 < d1" and rest: "list_all (\<lambda>(m, q). p_prediction q \<noteq> actual) items"
    by (auto simp: d1_def)
  show ?case
  proof (cases "d1 < cd")
    case True
    define v1 where "v1 = v\<lparr>loop_prediction := Some p1,
                   closest_prediction := Some (p_prediction p1),
                   closest_delta := Some d1,
                   closest_nick := Some n1\<rparr>"
    from closest_loop_Cons [OF Cons.prems(1) [unfolded item]] Cons.prems(2) True
    obtain sent1 where loop: "closest_loop cfg now symbol actual items v1 sent1 = (None, v', sent')"
      by (auto simp: replaces_leader_def v1_def d1_def)
    have cd1: "closest_delta v1 = Some d1" by (simp add: v1_def)
    from Cons.IH [OF loop cd1 d1pos rest]
    show ?thesis
    proof
      assume a: "closest_nick v' = closest_nick v1 \<and> closest_delta v' = Some d1 \<and>
        closest_prediction v' = closest_prediction v1 \<and>
        list_all (\<lambda>(m, q). d1 \<le> \<bar>actual - p_prediction q\<bar>) items"
      have "item # items = [] @ (n1, p1) # items" by (simp add: item)
      with a True show ?thesis
        unfolding d1_def v1_def by (intro disjI2 exI [of _ "[]"] exI [of _ n1] exI [of _ p1] exI [of _ items]) simp
    next
      assume "\<exists>pre n p post. items = pre @ (n, p) # post \<and>
        closest_nick v' = Some n \<and> closest_delta v' = Some \<bar>actual - p_prediction p\<bar> \<and>
        closest_prediction v' = Some (p_prediction p) \<and>
        \<bar>actual - p_prediction p\<bar> < d1 \<and>
        list_all (\<lambda>(m, q). \<bar>actual - p_prediction p\<bar> < \<bar>actual - p_prediction q\<bar>) pre \<and>
        list_all (\<lambda>(m, q). \<bar>actual - p_prediction p\<bar> \<le> \<bar>actual - p_prediction q\<bar>) post"
      then obtain pre n p post where b: "items = pre @ (n, p) # post"
        "closest_nick v' = Some n" "closest_delta v' = Some \<bar>actual - p_prediction p\<bar>"
        "closest_prediction v' = Some (p_prediction p)"
        "\<bar>actual - p_prediction p\<bar> < d1"
        "list_all (\<lambda>(m, q). \<bar>actual - p_prediction p\<bar> < \<bar>actual - p_prediction q\<bar>) pre"
        "list_all (\<lambda>(m, q). \<bar>actual - p_prediction p\<bar> \<le> \<bar>actual - p_prediction q\<bar>) post"
        by blast
      have "item # items = ((n1, p1) # pre) @ (n, p) # post" by (simp add: item b(1))
      moreover have "\<bar>actual - p_prediction p\<bar> < cd" using b(5) True by simp
      moreover have "list_all (\<lambda>(m, q). \<bar>actual - p_prediction p\<bar> < \<bar>actual - p_prediction q\<bar>) ((n1, p1) # pre)"
        using b(5,6) by (simp add: d1_def)
      ultimately show ?thesis using b(2,3,4,7) by blast
    qed
  next
    case False
    define v1 where "v1 = v\<lparr>loop_prediction := Some p1\<rparr>"
    from closest_loop_Cons [OF Cons.prems(1) [unfolded item]] Cons.prems(2,3) False
    obtain sent1 where loop: "closest_loop cfg now symbol actual items v1 sent1 = (None, v', sent')"
      by (auto simp: replaces_leader_def v1_def d1_def)
    have cd1: "closest_delta v1 = Some cd" using Cons.prems(2) by (simp add: v1_def)
    from Cons.IH [OF loop cd1 Cons.prems(3) rest]
    show ?thesis
    proof
      assume "closest_nick v' = closest_nick v1 \<and> closest_delta v' = Some cd \<and>
        closest_prediction v' = closest_prediction v1 \<and>
        list_all (\<lambda>(m, q). cd \<le> \<bar>actual - p_prediction q\<bar>) items"
      with False item show ?thesis by (simp add: v1_def d1_def)
    next
      assume "\<exists>pre n p post. items = pre @ (n, p) # post \<and>
        closest_nick v' = Some n \<and> closest_delta v' = Some \<bar>actual - p_prediction p\<bar> \<and>
        closest_prediction v' = Some (p_prediction p) \<and>
        \<bar>actual - p_prediction p\<bar> < cd \<and>
        list_all (\<lambda>(m, q). \<bar>actual - p_prediction p\<bar> < \<bar>actual - p_prediction q\<bar>) pre \<and>
        list_all (\<lambda>(m, q). \<bar>actual - p_prediction p\<bar> \<le> \<bar>actual - p_prediction q\<bar>) post"
      then obtain pre n p post where b: "items = pre @ (n, p) # post"
        "closest_nick v' = Some n" "closest_delta v' = Some \<bar>actual - p_prediction p\<bar>"
        "closest_prediction v' = Some (p_prediction p)"
        "\<bar>actual - p_prediction p\<bar> < cd"
        "list_all (\<lambda>(m, q). \<bar>actual - p_prediction p\<bar> < \<bar>actual - p_prediction q\<bar>) pre"
        "list_all (\<lambda>(m, q). \<bar>actual - p_prediction p\<bar> \<le> \<bar>actual - p_prediction q\<bar>) post"
        by blast
      have "item # items = ((n1, p1) # pre) @ (n, p) # post" by (simp add: item b(1))
      moreover have "list_all (\<lambda>(m, q). \<bar>actual - p_prediction p\<bar> < \<bar>actual - p_prediction q\<bar>) ((n1, p1) # pre)"
        using b(5,6) False by (simp add: d1_def)
      ultimately show ?thesis using b(2,3,4,5,7) by blast
    qed
  qed
qed

lemma closest_loop_first_minimum:
  assumes "closest_loop cfg now symbol actual items v sent = (None, v', sent')"
    and "closest_delta v = None"
    and "items \<noteq> []"
    and "list_all (\<lambda>(m, q). p_prediction q \<noteq> actual) items"
  shows "\<exists>pre n p post. items = pre @ (n, p) # post \<and>
      closest_nick v' = Some n \<and> closest_delta v' = Some \<bar>actual - p_prediction p\<bar> \<and>
      closest_prediction v' = Some (p_prediction p) \<and>
      list_all (\<lambda>(m, q). \<bar>actual - p_prediction p\<bar> < \<bar>actual - p_prediction q\<bar>) pre \<and>
      list_all (\<lambda>(m, q). \<bar>actual - p_prediction p\<bar> \<le> \<bar>actual - p_prediction q\<bar>) post"
proof -
  obtain n1 p1 rest where items: "items = (n1, p1) # rest"
    using assms(3) by (cases items) auto
  define d1 where "d1 = \<bar>actual - p_prediction p1\<bar>"
  define v1 where "v1 = v\<lparr>loop_prediction := Some p1,
                   closest_prediction := Some (p_prediction p1),
                   closest_delta := Some d1,
                   closest_nick := Some n1\<rparr>"
  from assms(4) items have d1pos: "0 < d1" and rest: "list_all (\<lambda>(m, q). p_prediction q \<noteq> actual) rest"
    by (auto simp: d1_def)
  from closest_loop_Cons [OF assms(1) [unfolded items]] assms(2)
  obtain sent1 where loop: "closest_loop cfg now symbol actual rest v1 sent1 = (None, v', sent')"
    by (auto simp: replaces_leader_def v1_def d1_def)
  have cd1: "closest_delta v1 = Some d1" by (simp add: v1_def)
  from closest_loop_leader [OF loop cd1 d1pos rest]
  show ?thesis
  proof
    assume a: "closest_nick v' = closest_nick v1 \<and> closest_delta v' = Some d1 \<and>
        closest_prediction v' = closest_prediction v1 \<and>
        list_all (\<lambda>(m, q). d1 \<le> \<bar>actual - p_prediction q\<bar>) rest"
    have "items = [] @ (n1, p1) # rest" by (simp add: items)
    with a show ?thesis
      unfolding d1_def v1_def by (intro exI [of _ "[]"] exI [of _ n1] exI [of _ p1] exI [of _ rest]) simp
  next
    assume "\<exists>pre n p post. rest = pre @ (n, p) # post \<and>
        closest_nick v' = Some n \<and> closest_delta v' = Some \<bar>actual - p_prediction p\<bar> \<and>
        closest_prediction v' = Some (p_prediction p) \<and>
        \<bar>actual - p_prediction p\<bar> < d1 \<and>
        list_all (\<lambda>(m, q). \<bar>actual - p_prediction p\<bar> < \<bar>actual - p_prediction q\<bar>) pre \<and>
        list_all (\<lambda>(m, q). \<bar>actual - p_prediction p\<bar> \<le> \<bar>actual - p_prediction q\<bar>) post"
    then obtain pre n p post where b: "rest = pre @ (n, p) # post"
        "closest_nick v' = Some n" "closest_delta v' = Some \<bar>actual - p_prediction p\<bar>"
        "closest_prediction v' = Some (p_prediction p)"
        "\<bar>actual - p_prediction p\<bar> < d1"
        "list_all (\<lambda>(m, q). \<bar>actual - p_prediction p\<bar> < \<bar>actual - p_prediction q\<bar>) pre"
        "list_all (\<lambda>(m, q). \<bar>actual - p_prediction p\<bar> \<le> \<bar>actual - p_prediction q\<bar>) post"
      by blast
    have "items = ((n1, p1) # pre) @ (n, p) # post" by (simp add: items b(1))
    moreover have "list_all (\<lambda>(m, q). \<bar>actual - p_prediction p\<bar> < \<bar>actual - p_prediction q\<bar>) ((n1, p1) # pre)"
      using b(5,6) by (simp add: d1_def)
    ultimately show ?thesis using b(2,3,4,7) by blast
  qed
qed

text \<open>
  C10. When the predictions of a symbol are resolved without an exception and there is a
  channel to report to, the summary sent last shows, for the closest prediction and for
  the actual price, the percent deltas against the base price of the last
  (nick, prediction) pair of the snapshot, whoever made the closest guess.
\<close>

theorem summary_deltas_use_last_base:
  assumes "getitem (dp_db st) symbol = Inr predictions"
    and "predictions \<noteq> []"
    and "cfg_channels cfg \<noteq> []"
    and "resolve_symbol cfg now symbol actual st = (None, st')"
  shows "\<exists>nick cp sent.
           dp_sent st' = sent @ map (\<lambda>channel. (channel,
             ClosestGuess nick symbol (length predictions) cp
               (colorize (cp / p_base (snd (last predictions)) * 100 - 100))
               (if market_is_open now then ''open'' else ''close'') actual
               (colorize (actual / p_base (snd (last predictions)) * 100 - 100))))
             (cfg_channels cfg)"
proof -
  define v0 where "v0 = \<lparr> closest_prediction = None, closest_delta = None, closest_nick = None,
                      loop_prediction = dp_prediction st \<rparr>"
  obtain err v sent where loop:
    "closest_loop cfg now symbol actual predictions v0 (dp_sent st) = (err, v, sent)"
    by (cases "closest_loop cfg now symbol actual predictions v0 (dp_sent st)") auto
  from assms(1,4) loop have err: "err = None"
    by (cases err) (auto simp: resolve_symbol_def v0_def Let_def)
  from loop err assms(2) have lp: "loop_prediction v = Some (snd (last predictions))"
    by (auto dest: closest_loop_last)
  from loop assms(2) have "closest_prediction v \<noteq> None"
    by (rule closest_loop_sets_closest) (simp add: v0_def)
  then obtain cp where cp: "closest_prediction v = Some cp" by auto
  from assms(1,3,4) loop err lp cp show ?thesis
    by (auto simp: resolve_symbol_def v0_def Let_def closest_text_def send_all_def
        get_delta_def ebind_def split: if_splits)
qed

theorem summary_deltas_use_last_base_witness:
  "getitem
     [(''AAA'', [(''u1'', \<lparr>p_when = ''t1'', p_base = 50, p_prediction = 99\<rparr>),
                (''u2'', \<lparr>p_when = ''t2'', p_base = 200, p_prediction = 150\<rparr>)])] ''AAA''
   = Inr [(''u1'', \<lparr>p_when = ''t1'', p_base = 50, p_prediction = 99\<rparr>),
          (''u2'', \<lparr>p_when = ''t2'', p_base = 200, p_prediction = 150\<rparr>)] \<and>
   resolve_symbol
     \<lparr>cfg_channels = [''#c''], cfg_stocks = [], cfg_relay_bots = []\<rparr>
     \<lparr>weekday = 0, hour = 9, minute = 30, second = 0\<rparr> ''AAA'' 100
     \<lparr>dp_db = [(''AAA'', [(''u1'', \<lparr>p_when = ''t1'', p_base = 50, p_prediction = 99\<rparr>),
                         (''u2'', \<lparr>p_when = ''t2'', p_base = 200, p_prediction = 150\<rparr>)])],
      dp_sent = [], dp_prediction = None\<rparr>
   = (None,
      \<lparr>dp_db = [],
       dp_sent =
         [(''#c'', PredictionResult ''u1'' ''AAA'' 99 (light_green 98) ''open'' 100
                    (light_green 100) ''t1''),
          (''#c'', PredictionResult ''u2'' ''AAA'' 150 (light_red (-25)) ''open'' 100
                    (light_red (-50)) ''t2''),
          (''#c'', ClosestGuess (Some ''u1'') ''AAA'' 2 99 (light_red (99 / 200 * 100 - 100))
                    ''open'' 100 (light_red (-50)))],
       dp_prediction = Some \<lparr>p_when = ''t2'', p_base = 200, p_prediction = 150\<rparr>\<rparr>) \<and>
   (\<exists>nick cp sent.
      [(''#c'', PredictionResult ''u1'' ''AAA'' 99 (light_green 98) ''open'' 100
                 (light_green 100) ''t1''),
       (''#c'', PredictionResult ''u2'' ''AAA'' 150 (light_red (-25)) ''open'' 100
                 (light_red (-50)) ''t2''),
       (''#c'', ClosestGuess (Some ''u1'') ''AAA'' 2 99 (light_red (99 / 200 * 100 - 100))
                 ''open'' 100 (light_red (-50)))]
      = sent @ [(''#c'', ClosestGuess nick ''AAA'' 2 cp (colorize (cp / 200 * 100 - 100))
                           ''open'' 100 (colorize (100 / 200 * 100 - 100)))])"
proof -
  let ?cfg = "\<lparr>cfg_channels = [''#c''], cfg_stocks = [], cfg_relay_bots = []\<rparr>"
  let ?now = "\<lparr>weekday = 0, hour = 9, minute = 30, second = 0\<rparr>"
  let ?ps = "[(''u1'', \<lparr>p_when = ''t1'', p_base = 50, p_prediction = 99\<rparr>),
              (''u2'', \<lparr>p_when = ''t2'', p_base = 200, p_prediction = 150\<rparr>)]"
  let ?st = "\<lparr>dp_db = [(''AAA'', ?ps)], dp_sent = [], dp_prediction = None\<rparr>"
  have look: "getitem (dp_db ?st) ''AAA'' = Inr ?ps" by (simp add: getitem_def)
  have ne: "?ps \<noteq> []" "cfg_channels ?cfg \<noteq> []" by simp_all
  have run: "resolve_symbol ?cfg ?now ''AAA'' 100 ?st
   = (None,
      \<lparr>dp_db = [],
       dp_sent =
         [(''#c'', PredictionResult ''u1'' ''AAA'' 99 (light_green 98) ''open'' 100
                    (light_green 100) ''t1''),
          (''#c'', PredictionResult ''u2'' ''AAA'' 150 (light_red (-25)) ''open'' 100
                    (light_red (-50)) ''t2''),
          (''#c'', ClosestGuess (Some ''u1'') ''AAA'' 2 99 (light_red (99 / 200 * 100 - 100))
                    ''open'' 100 (light_red (-50)))],
       dp_prediction = Some \<lparr>p_when = ''t2'', p_base = 200, p_prediction = 150\<rparr>\<rparr>)"
    by (simp add: resolve_symbol_def getitem_def send_prediction_def ebind_def
      send_all_def closest_text_def replaces_leader_def get_delta_def colorize_def
      market_is_open_def)
  from summary_deltas_use_last_base [OF look ne run] look run show ?thesis
    by (simp add: market_is_open_def)
qed

lemma resolve_symbol_db:
  assumes "resolve_symbol cfg now symbol actual st = (err, st')"
  shows "map_of (dp_db st') = (map_of (dp_db st))(symbol := None)"
proof (cases "map_of (dp_db st) symbol")
  case None
  with assms have "st' = st" by (simp add: resolve_symbol_def getitem_def)
  with None show ?thesis by auto
next
  case (Some predictions)
  with assms have "dp_db st' = AList.delete symbol (dp_db st)"
    by (auto simp: resolve_symbol_def getitem_def Let_def split: prod.splits option.splits sum.splits)
  then show ?thesis by (simp add: delete_conv')
qed

lemma predictions_loop_frame:
  "predictions_loop cfg now http symbols st = (err, st') \<Longrightarrow>
   s \<notin> set symbols \<or> \<not> fetch_succeeded http s \<Longrightarrow>
   map_of (dp_db st') s = map_of (dp_db st) s"
proof (induction symbols arbitrary: st)
  case Nil
  then show ?case by simp
next
  case (Cons symbol rest)
  show ?case
  proof (cases "ebind (get_daily http symbol) (quote_field q_price)")
    case (Inl e)
    with Cons.prems have "predictions_loop cfg now http rest
        (st\<lparr>dp_sent := dp_sent st @
               map (\<lambda>channel. (channel, PredictionError symbol)) (cfg_channels cfg)\<rparr>) = (err, st')"
      by simp
    from Cons.IH [OF this] Cons.prems(2) Inl show ?thesis
      by (auto simp: fetch_succeeded_def)
  next
    case (Inr actual)
    then have ok: "fetch_succeeded http symbol" by (simp add: fetch_succeeded_def)
    with Cons.prems(2) have ne: "s \<noteq> symbol" by auto
    obtain e1 st1 where r: "resolve_symbol cfg now symbol actual st = (e1, st1)"
      by (cases "resolve_symbol cfg now symbol actual st") auto
    from resolve_symbol_db [OF r] ne have st1: "map_of (dp_db st1) s = map_of (dp_db st) s"
      by simp
    show ?thesis
    proof (cases e1)
      case None
      with Cons.prems(1) Inr r have "predictions_loop cfg now http rest st1 = (err, st')" by simp
      from Cons.IH [OF this] Cons.prems(2) ne st1 show ?thesis by auto
    next
      case (Some e)
      with Cons.prems(1) Inr r have "st' = st1" by simp
      with st1 show ?thesis by simp
    qed
  qed
qed

lemma predictions_loop_absent:
  "predictions_loop cfg now http symbols st = (err, st') \<Longrightarrow>
   map_of (dp_db st) s = None \<Longrightarrow> map_of (dp_db st') s = None"
proof (induction symbols arbitrary: st)
  case Nil
  then show ?case by simp
next
  case (Cons symbol rest)
  show ?case
  proof (cases "ebind (get_daily http symbol) (quote_field q_price)")
    case (Inl e)
    with Cons.prems have "predictions_loop cfg now http rest
        (st\<lparr>dp_sent := dp_sent st @
               map (\<lambda>channel. (channel, PredictionError symbol)) (cfg_channels cfg)\<rparr>) = (err, st')"
      by simp
    from Cons.IH [OF this] Cons.prems(2) show ?thesis by simp
  next
    case (Inr actual)
    obtain e1 st1 where r: "resolve_symbol cfg now symbol actual st = (e1, st1)"
      by (cases "resolve_symbol cfg now symbol actual st") auto
    from resolve_symbol_db [OF r] Cons.prems(2) have st1: "map_of (dp_db st1) s = None"
      by simp
    show ?thesis
    proof (cases e1)
      case None
      with Cons.prems(1) Inr r have "predictions_loop cfg now http rest st1 = (err, st')" by simp
      from Cons.IH [OF this st1] show ?thesis .
    next
      case (Some e)
      with Cons.prems(1) Inr r have "st' = st1" by simp
      with st1 show ?thesis by simp
    qed
  qed
qed

lemma predictions_loop_drained:
  "predictions_loop cfg now http symbols st = (None, st') \<Longrightarrow>
   s \<in> set symbols \<Longrightarrow> fetch_succeeded http s \<Longrightarrow> map_of (dp_db st') s = None"
proof (induction symbols arbitrary: st)
  case Nil
  then show ?case by simp
next
  case (Cons symbol rest)
  show ?case
  proof (cases "ebind (get_daily http symbol) (quote_field q_price)")
    case (Inl e)
    with Cons.prems(3) have ne: "s \<noteq> symbol" by (auto simp: fetch_succeeded_def)
    from Inl Cons.prems(1) have "predictions_loop cfg now http rest
        (st\<lparr>dp_sent := dp_sent st @
               map (\<lambda>channel. (channel, PredictionError symbol)) (cfg_channels cfg)\<rparr>) = (None, st')"
      by simp
    from Cons.IH [OF this] Cons.prems(2,3) ne show ?thesis by simp
  next
    case (Inr actual)
    obtain e1 st1 where r: "resolve_symbol cfg now symbol actual st = (e1, st1)"
      by (cases "resolve_symbol cfg now symbol actual st") auto
    with Cons.prems(1) Inr have e1: "e1 = None" by (cases e1) auto
    with Cons.prems(1) Inr r have rest: "predictions_loop cfg now http rest st1 = (None, st')"
      by simp
    show ?thesis
    proof (cases "s = symbol")
      case True
      with resolve_symbol_db [OF r] have "map_of (dp_db st1) s = None" by simp
      with rest show ?thesis by (rule predictions_loop_absent)
    next
      case False
      with Cons.prems(2) have "s \<in> set rest" by simp
      from Cons.IH [OF rest this Cons.prems(3)] show ?thesis .
    qed
  qed
qed


lemma closest_loop_no_raise:
  "list_all (\<lambda>(nick, pred). p_base pred \<noteq> 0) items \<Longrightarrow>
   fst (closest_loop cfg now symbol actual items v sent) = None"
proof (induction items arbitrary: v sent)
  case Nil
  then show ?case by simp
next
  case (Cons item items)
  obtain nick pred where item: "item = (nick, pred)" by (cases item)
  with Cons.prems have base: "p_base pred \<noteq> 0" and rest: "list_all (\<lambda>(nick, pred). p_base pred \<noteq> 0) items"
    by simp_all
  from base have "\<exists>sent1. send_prediction cfg now nick symbol pred actual sent = Inr sent1"
    by (simp add: send_prediction_cases)
  then obtain sent1 where "send_prediction cfg now nick symbol pred actual sent = Inr sent1" ..
  with item Cons.IH [OF rest] show ?case by (simp add: Let_def)
qed

lemma resolve_symbol_no_raise:
  assumes "map_of (dp_db st) symbol = Some predictions"
    and "predictions \<noteq> []"
    and "list_all (\<lambda>(nick, pred). p_base pred \<noteq> 0) predictions"
  shows "fst (resolve_symbol cfg now symbol actual st) = None"
proof -
  define v0 where "v0 = \<lparr> closest_prediction = None, closest_delta = None, closest_nick = None,
                      loop_prediction = dp_prediction st \<rparr>"
  obtain err v sent where loop:
    "closest_loop cfg now symbol actual predictions v0 (dp_sent st) = (err, v, sent)"
    by (cases "closest_loop cfg now symbol actual predictions v0 (dp_sent st)") auto
  from closest_loop_no_raise [OF assms(3), of cfg now symbol actual v0 "dp_sent st"] loop
  have err: "err = None" by simp
  from loop err assms(2) have lp: "loop_prediction v = Some (snd (last predictions))"
    by (auto dest: closest_loop_last)
  from loop assms(2) have "closest_prediction v \<noteq> None"
    by (rule closest_loop_sets_closest) (simp add: v0_def)
  then obtain cp where cp: "closest_prediction v = Some cp" by auto
  from assms(2,3) have "p_base (snd (last predictions)) \<noteq> 0"
    by (auto simp: list_all_iff dest!: last_in_set)
  with assms(1) loop err lp cp show ?thesis
    by (auto simp: resolve_symbol_def getitem_def v0_def Let_def closest_text_def send_all_def
        get_delta_def ebind_def)
qed

lemma predictions_loop_completes:
  "distinct symbols \<Longrightarrow>
   (\<forall>s\<in>set symbols. \<exists>ps. map_of (dp_db st) s = Some ps \<and> ps \<noteq> [] \<and>
        list_all (\<lambda>(nick, pred). p_base pred \<noteq> 0) ps) \<Longrightarrow>
   fst (predictions_loop cfg now http symbols st) = None"
proof (induction symbols arbitrary: st)
  case Nil
  then show ?case by simp
next
  case (Cons symbol rest)
  from Cons.prems(1) have d: "distinct rest" and notin: "symbol \<notin> set rest" by simp_all
  show ?case
  proof (cases "ebind (get_daily http symbol) (quote_field q_price)")
    case (Inl e)
    with Cons.IH [OF d, of "st\<lparr>dp_sent := dp_sent st @
               map (\<lambda>channel. (channel, PredictionError symbol)) (cfg_channels cfg)\<rparr>"]
      Cons.prems(2)
    show ?thesis by simp
  next
    case (Inr actual)
    from Cons.prems(2) obtain ps where ps: "map_of (dp_db st) symbol = Some ps" "ps \<noteq> []"
      "list_all (\<lambda>(nick, pred). p_base pred \<noteq> 0) ps" by auto
    obtain e1 st1 where r: "resolve_symbol cfg now symbol actual st = (e1, st1)"
      by (cases "resolve_symbol cfg now symbol actual st") auto
    from resolve_symbol_no_raise [OF ps, of cfg now actual] r have e1: "e1 = None" by simp
    from resolve_symbol_db [OF r] notin
    have "\<forall>s\<in>set rest. map_of (dp_db st1) s = map_of (dp_db st) s" by auto
    with Cons.prems(2)
    have "\<forall>s\<in>set rest. \<exists>ps. map_of (dp_db st1) s = Some ps \<and> ps \<noteq> [] \<and>
        list_all (\<lambda>(nick, pred). p_base pred \<noteq> 0) ps" by simp
    from Cons.IH [OF d this] Inr r e1 show ?thesis by simp
  qed
qed

lemma proper_store_lookup:
  assumes "proper_store db" and "s \<in> set (map fst db)"
  shows "\<exists>ps. map_of db s = Some ps \<and> ps \<noteq> [] \<and> list_all (\<lambda>(nick, pred). p_base pred \<noteq> 0) ps"
proof -
  from assms(2) obtain ps where mem: "(s, ps) \<in> set db" by auto
  with assms(1) have "map_of db s = Some ps" by (simp add: proper_store_def)
  moreover from mem assms(1) have "ps \<noteq> [] \<and> list_all (\<lambda>(nick, pred). p_base pred \<noteq> 0) ps"
    by (auto simp: proper_store_def list_all_iff)
  ultimately show ?thesis by simp
qed

lemma do_predictions_completes:
  assumes "proper_store db"
  shows "fst (do_predictions cfg now http db) = None"
  unfolding do_predictions_def Let_def
proof (rule predictions_loop_completes)
  from assms show "distinct (map fst db)" by (simp add: proper_store_def)
  from proper_store_lookup [OF assms]
  show "\<forall>s\<in>set (map fst db). \<exists>ps.
          map_of (dp_db \<lparr>dp_db = db, dp_sent = [], dp_prediction = None\<rparr>) s = Some ps \<and> ps \<noteq> [] \<and>
          list_all (\<lambda>(nick, pred). p_base pred \<noteq> 0) ps"
    by simp
qed

text \<open>
  C2. After a resolution round, for a symbol that had predictions in the store: when its
  fetch failed, its predictions are in the store as they were; when its fetch succeeded
  and the round ran to its end, the store has no entry for it. The round runs to its end
  on every proper store.
\<close>

theorem resolution_round_store:
  assumes "do_predictions cfg now http db = (err, st')"
    and "map_of db s = Some ps"
  shows "(\<not> fetch_succeeded http s \<longrightarrow> map_of (dp_db st') s = Some ps) \<and>
         (fetch_succeeded http s \<and> err = None \<longrightarrow> map_of (dp_db st') s = None) \<and>
         (proper_store db \<longrightarrow> err = None)"
proof -
  let ?st = "\<lparr>dp_db = db, dp_sent = [], dp_prediction = None\<rparr>"
  from assms(1) have loop: "predictions_loop cfg now http (map fst db) ?st = (err, st')"
    by (simp add: do_predictions_def)
  from assms(2) have mem: "s \<in> set (map fst db)"
    by (auto dest: map_of_SomeD intro: rev_image_eqI)
  have a: "map_of (dp_db st') s = Some ps" if "\<not> fetch_succeeded http s"
    using predictions_loop_frame [OF loop, of s] that assms(2) by simp
  have b: "map_of (dp_db st') s = None" if "fetch_succeeded http s" "err = None"
    using predictions_loop_drained [of cfg now http "map fst db" ?st st' s] loop mem that by simp
  have c: "err = None" if "proper_store db"
    using do_predictions_completes [OF that, of cfg now http] assms(1) by simp
  from a b c show ?thesis by blast
qed

theorem resolution_round_store_witness:
  "do_predictions
     \<lparr>cfg_channels = [''#c''], cfg_stocks = [], cfg_relay_bots = []\<rparr>
     \<lparr>weekday = 0, hour = 16, minute = 0, second = 0\<rparr>
     (\<lambda>symbol. if symbol = ''AAA'' then ConnectionFailed
        else Response 200 (JsonObject
          [(''symbol'', JStr ''BBB''), (''latestPrice'', JNum 100),
           (''previousClose'', JNum 100), (''changePercent'', JNum 0)]))
     [(''AAA'', [(''u1'', \<lparr>p_when = ''t1'', p_base = 100, p_prediction = 105\<rparr>)]),
      (''BBB'', [(''u2'', \<lparr>p_when = ''t2'', p_base = 100, p_prediction = 98\<rparr>)])]
   = (None,
      \<lparr>dp_db = [(''AAA'', [(''u1'', \<lparr>p_when = ''t1'', p_base = 100, p_prediction = 105\<rparr>)])],
       dp_sent =
         [(''#c'', PredictionError ''AAA''),
          (''#c'', PredictionResult ''u2'' ''BBB'' 98 (light_red (-2)) ''open'' 100 (light_red 0) ''t2''),
          (''#c'', ClosestGuess (Some ''u2'') ''BBB'' 1 98 (light_red (-2)) ''open'' 100 (light_red 0))],
       dp_prediction = Some \<lparr>p_when = ''t2'', p_base = 100, p_prediction = 98\<rparr>\<rparr>) \<and>
   \<not> fetch_succeeded
     (\<lambda>symbol. if symbol = ''AAA'' then ConnectionFailed
        else Response 200 (JsonObject
          [(''symbol'', JStr ''BBB''), (''latestPrice'', JNum 100),
           (''previousClose'', JNum 100), (''changePercent'', JNum 0)])) ''AAA'' \<and>
   fetch_succeeded
     (\<lambda>symbol. if symbol = ''AAA'' then ConnectionFailed
        else Response 200 (JsonObject
          [(''symbol'', JStr ''BBB''), (''latestPrice'', JNum 100),
           (''previousClose'', JNum 100), (''changePercent'', JNum 0)])) ''BBB'' \<and>
   proper_store
     [(''AAA'', [(''u1'', \<lparr>p_when = ''t1'', p_base = 100, p_prediction = 105\<rparr>)]),
      (''BBB'', [(''u2'', \<lparr>p_when = ''t2'', p_base = 100, p_prediction = 98\<rparr>)])]"
proof -
  let ?cfg = "\<lparr>cfg_channels = [''#c''], cfg_stocks = [], cfg_relay_bots = []\<rparr>"
  let ?now = "\<lparr>weekday = 0, hour = 16, minute = 0, second = 0\<rparr>"
  let ?http = "\<lambda>symbol. if symbol = ''AAA'' then ConnectionFailed
        else Response 200 (JsonObject
          [(''symbol'', JStr ''BBB''), (''latestPrice'', JNum 100),
           (''previousClose'', JNum 100), (''changePercent'', JNum 0)])"
  let ?db = "[(''AAA'', [(''u1'', \<lparr>p_when = ''t1'', p_base = 100, p_prediction = 105\<rparr>)]),
      (''BBB'', [(''u2'', \<lparr>p_when = ''t2'', p_base = 100, p_prediction = 98\<rparr>)])]"
  have run: "do_predictions ?cfg ?now ?http ?db
   = (None,
      \<lparr>dp_db = [(''AAA'', [(''u1'', \<lparr>p_when = ''t1'', p_base = 100, p_prediction = 105\<rparr>)])],
       dp_sent =
         [(''#c'', PredictionError ''AAA''),
          (''#c'', PredictionResult ''u2'' ''BBB'' 98 (light_red (-2)) ''open'' 100 (light_red 0) ''t2''),
          (''#c'', ClosestGuess (Some ''u2'') ''BBB'' 1 98 (light_red (-2)) ''open'' 100 (light_red 0))],
       dp_prediction = Some \<lparr>p_when = ''t2'', p_base = 100, p_prediction = 98\<rparr>\<rparr>)"
    by (simp add: do_predictions_def get_daily_def make_iex_request_def quote_of_data_def
      ebind_def getitem_def py_float_def quote_field_def resolve_symbol_def send_prediction_def
      send_all_def closest_text_def replaces_leader_def get_delta_def colorize_def
      market_is_open_def)
  have look: "map_of ?db ''BBB'' = Some [(''u2'', \<lparr>p_when = ''t2'', p_base = 100, p_prediction = 98\<rparr>)]"
    by simp
  have fs: "\<not> fetch_succeeded ?http ''AAA''" "fetch_succeeded ?http ''BBB''"
    by (simp_all add: fetch_succeeded_def get_daily_def make_iex_request_def quote_of_data_def
      ebind_def getitem_def py_float_def quote_field_def)
  have ps: "proper_store ?db" by (simp add: proper_store_def)
  from resolution_round_store [OF run look] run fs ps show ?thesis by simp
qed

subsection \<open>Submitting predictions\<close>

lemma upper_AAA: "upper ''AAA'' = ''AAA''"
  by code_simp

lemma parse_prediction_percentage:
  assumes "get_daily http (upper group2) = Inr (Some q)" and "pct \<noteq> 0"
  shows "parse_prediction strip_formatting cfg now http usr None group2 group3 (Some pct) group5
    = Inr (Some (u_nick usr, upper group2,
        (let base = (if market_is_open now then q_previous_close q else q_price q)
         in if group3 = Some ''-'' then base - pct / 100 * base else base + pct / 100 * base),
        (if market_is_open now then q_previous_close q else q_price q)))"
  using assms
  by (simp add: parse_prediction_def group_given_def ebind_def quote_field_def Let_def)

text \<open>
  C6: the code at its failing input. A prediction of \<open>+0%\<close> on a symbol whose quote is
  fetched: \<open>parse_prediction\<close> takes the branch the source marks "this shouldn't happen"
  and returns \<open>None\<close>, and \<open>predict\<close> stores nothing and sends nothing, where the claim has
  the base price stored as the predicted price.
\<close>

theorem predict_zero_percent_stores_nothing:
  "parse_prediction strip_formatting
     \<lparr>cfg_channels = [''#c''], cfg_stocks = [], cfg_relay_bots = []\<rparr>
     \<lparr>weekday = 0, hour = 12, minute = 0, second = 0\<rparr>
     (\<lambda>symbol. Response 200 (JsonObject
        [(''symbol'', JStr ''AAA''), (''latestPrice'', JNum 100),
         (''previousClose'', JNum 80), (''changePercent'', JNum (1/4))]))
     \<lparr>u_nick = ''u1'', u_user = ''u'', u_vhost = ''h''\<rparr>
     None ''AAA'' (Some ''+'') (Some 0) None
   = Inr None \<and>
   predict strip_formatting
     \<lparr>cfg_channels = [''#c''], cfg_stocks = [], cfg_relay_bots = []\<rparr>
     \<lparr>weekday = 0, hour = 12, minute = 0, second = 0\<rparr> ''t1''
     (\<lambda>symbol. Response 200 (JsonObject
        [(''symbol'', JStr ''AAA''), (''latestPrice'', JNum 100),
         (''previousClose'', JNum 80), (''changePercent'', JNum (1/4))]))
     []
     \<lparr>u_nick = ''u1'', u_user = ''u'', u_vhost = ''h''\<rparr> ''#c''
     None ''AAA'' (Some ''+'') (Some 0) None
   = (None, [], [])"
  by (simp add: predict_def parse_prediction_def upper_AAA group_given_def get_daily_def
      make_iex_request_def quote_of_data_def ebind_def getitem_def py_float_def quote_field_def
      market_is_open_def)

subsection \<open>The ticker\<close>

lemma add_result_None:
  "add_result r m k = None \<longleftrightarrow> m k = None \<and> (\<forall>chg. r \<noteq> Inr (k, chg))"
  by (cases r) (auto simp: add_result_def split: prod.splits)

lemma fold_add_result_None:
  "fold add_result rs m k = None \<longleftrightarrow> m k = None \<and> (\<forall>chg. Inr (k, chg) \<notin> set rs)"
proof (induction rs arbitrary: m)
  case Nil
  then show ?case by simp
next
  case (Cons r rs)
  have "fold add_result (r # rs) m k = None
        \<longleftrightarrow> add_result r m k = None \<and> (\<forall>chg. Inr (k, chg) \<notin> set rs)"
    using Cons.IH [of "add_result r m"] by simp
  also have "\<dots> \<longleftrightarrow> m k = None \<and> (\<forall>chg. Inr (k, chg) \<notin> set (r # rs))"
    unfolding add_result_None by auto
  finally show ?case .
qed

lemma collect_results_None:
  "collect_results rs k = None \<longleftrightarrow> (\<forall>chg. Inr (k, chg) \<notin> set rs)"
  by (simp add: collect_results_def fold_add_result_None)

lemma echoed_by_iff:
  "echoed_by cfg http s \<longleftrightarrow>
   (\<exists>asked name chg. (asked, name) \<in> set (stocks cfg) \<and>
      ticker_result (get_daily http asked) = Inr (JStr s, chg))"
proof
  assume "echoed_by cfg http s"
  then obtain item where item: "item \<in> set (stocks cfg)"
    "(case item of (asked, name) \<Rightarrow>
        case ticker_result (get_daily http asked) of
          Inl f \<Rightarrow> False
        | Inr (echo_symbol, chg) \<Rightarrow> echo_symbol = JStr s)"
    unfolding echoed_by_def list_ex_iff by blast
  obtain asked name where an: "item = (asked, name)" by (cases item)
  with item(2) obtain chg where "ticker_result (get_daily http asked) = Inr (JStr s, chg)"
    by (cases "ticker_result (get_daily http asked)") (auto split: prod.splits)
  with item(1) an show "\<exists>asked name chg. (asked, name) \<in> set (stocks cfg) \<and>
      ticker_result (get_daily http asked) = Inr (JStr s, chg)" by blast
next
  assume "\<exists>asked name chg. (asked, name) \<in> set (stocks cfg) \<and>
      ticker_result (get_daily http asked) = Inr (JStr s, chg)"
  then obtain asked name chg where "(asked, name) \<in> set (stocks cfg)"
    "ticker_result (get_daily http asked) = Inr (JStr s, chg)" by blast
  then show "echoed_by cfg http s"
    unfolding echoed_by_def list_ex_iff by (intro bexI [of _ "(asked, name)"]) simp_all
qed

lemma results_echoed:
  "collect_results (map (\<lambda>(symbol, name). ticker_result (get_daily http symbol)) (stocks cfg))
     (JStr s) = None \<longleftrightarrow> \<not> echoed_by cfg http s"
proof -
  have "(\<exists>chg. Inr (JStr s, chg)
            \<in> set (map (\<lambda>(symbol, name). ticker_result (get_daily http symbol)) (stocks cfg)))
        \<longleftrightarrow> (\<exists>asked name chg. (asked, name) \<in> set (stocks cfg) \<and>
               ticker_result (get_daily http asked) = Inr (JStr s, chg))"
  proof
    assume "\<exists>chg. Inr (JStr s, chg)
            \<in> set (map (\<lambda>(symbol, name). ticker_result (get_daily http symbol)) (stocks cfg))"
    then obtain chg item where item: "item \<in> set (stocks cfg)"
      "Inr (JStr s, chg) = (case item of (symbol, name) \<Rightarrow> ticker_result (get_daily http symbol))"
      by auto
    obtain asked name where "item = (asked, name)" by (cases item)
    with item have "(asked, name) \<in> set (stocks cfg)"
      "ticker_result (get_daily http asked) = Inr (JStr s, chg)" by simp_all
    then show "\<exists>asked name chg. (asked, name) \<in> set (stocks cfg) \<and>
               ticker_result (get_daily http asked) = Inr (JStr s, chg)"
      by blast
  next
    assume "\<exists>asked name chg. (asked, name) \<in> set (stocks cfg) \<and>
               ticker_result (get_daily http asked) = Inr (JStr s, chg)"
    then obtain asked name chg where a: "(asked, name) \<in> set (stocks cfg)"
      "ticker_result (get_daily http asked) = Inr (JStr s, chg)" by blast
    have "Inr (JStr s, chg)
            \<in> set (map (\<lambda>(symbol, name). ticker_result (get_daily http symbol)) (stocks cfg))"
      unfolding set_map by (rule image_eqI [of _ _ "(asked, name)"]) (simp_all add: a)
    then show "\<exists>chg. Inr (JStr s, chg)
            \<in> set (map (\<lambda>(symbol, name). ticker_result (get_daily http symbol)) (stocks cfg))" ..
  qed
  then show ?thesis
    unfolding collect_results_None echoed_by_iff by blast
qed

lemma format_parts_ok:
  "set items \<subseteq> set (stocks cfg) \<Longrightarrow>
   \<exists>parts. format_parts cfg items results = Inr parts \<and>
     map part_symbol parts = filter (\<lambda>s. results (JStr s) \<noteq> None) (map fst items)"
proof (induction items)
  case Nil
  then show ?case by simp
next
  case (Cons item items)
  obtain symbol name where item: "item = (symbol, name)" by (cases item)
  from Cons.prems have sub: "set items \<subseteq> set (stocks cfg)" by simp
  from Cons.IH [OF sub] obtain parts where parts: "format_parts cfg items results = Inr parts"
    "map part_symbol parts = filter (\<lambda>s. results (JStr s) \<noteq> None) (map fst items)" by blast
  show ?case
  proof (cases "results (JStr symbol)")
    case None
    with item parts show ?thesis by (simp del: not_None_eq)
  next
    case (Some chg)
    from Cons.prems item have "(symbol, name) \<in> set (stocks cfg)" by simp
    then have "map_of (stocks cfg) symbol \<noteq> None"
      by (simp add: map_of_eq_None_iff) (force)
    then obtain name' where "map_of (stocks cfg) symbol = Some name'" by auto
    then have "format_symbol cfg symbol chg = Inr (TickerPart name' symbol (colorize chg))"
      by (simp add: format_symbol_def getitem_def ebind_def)
    with item parts Some show ?thesis by (simp add: ebind_def del: not_None_eq)
  qed
qed

lemma echoed_iff_succeeded:
  assumes "echoes_asked cfg http" and "s \<in> set (map fst (stocks cfg))"
  shows "echoed_by cfg http s \<longleftrightarrow> ticker_succeeded http s"
proof
  assume "echoed_by cfg http s"
  then obtain asked name chg where a: "(asked, name) \<in> set (stocks cfg)"
    "ticker_result (get_daily http asked) = Inr (JStr s, chg)"
    unfolding echoed_by_iff by blast
  with assms(1) have "JStr s = JStr asked"
    by (auto simp: echoes_asked_def list_all_iff)
  with a show "ticker_succeeded http s" by (simp add: ticker_succeeded_def)
next
  assume "ticker_succeeded http s"
  then obtain k chg where r: "ticker_result (get_daily http s) = Inr (k, chg)"
    by (auto simp: ticker_succeeded_def split: sum.splits)
  from assms(2) obtain name where mem: "(s, name) \<in> set (stocks cfg)" by auto
  with assms(1) r have "k = JStr s" by (auto simp: echoes_asked_def list_all_iff)
  with r mem show "echoed_by cfg http s"
    unfolding echoed_by_iff by blast
qed




subsection \<open>The quote fetch and its callers\<close>

lemma check_answers_on_raise:
  "get_daily http (upper group2) = Inl e \<Longrightarrow>
   \<not> (group_given group1 \<and> \<not> is_relay_bot cfg usr) \<Longrightarrow>
   check strip_formatting cfg http usr channel group1 group2 =
     Inr [(channel, CouldNotLookUp
            (case group1 of
               None \<Rightarrow> u_nick usr
             | Some g \<Rightarrow> if g = [] then u_nick usr else strip_formatting g))]"
  by (simp add: check_def Let_def)

lemma predict_answers_on_raise:
  "get_daily http (upper group2) = Inl e \<Longrightarrow>
   \<not> (group_given group1 \<and> \<not> is_relay_bot cfg usr) \<Longrightarrow>
   predict strip_formatting cfg now when_text http db usr channel
     group1 group2 group3 group4 group5 = (None, db, [(channel, CouldNotLookUp (u_nick usr))])"
  by (simp add: predict_def parse_prediction_def ebind_def Let_def)

lemma ticker_skips_raise:
  "get_daily http symbol = Inl e \<Longrightarrow>
   add_result (ticker_result (get_daily http symbol)) results = results"
  by (simp add: ticker_result_def add_result_def)

lemma send_ticker_parts:
  "\<exists>parts. send_ticker cfg http = Inr (map (\<lambda>channel. (channel, Ticker parts)) (cfg_channels cfg)) \<and>
     map part_symbol parts = filter (echoed_by cfg http) (map fst (stocks cfg))"
proof -
  define results where "results =
    collect_results (map (\<lambda>(symbol, name). ticker_result (get_daily http symbol)) (stocks cfg))"
  from format_parts_ok [of "stocks cfg" cfg results]
  obtain parts where parts: "format_parts cfg (stocks cfg) results = Inr parts"
    "map part_symbol parts = filter (\<lambda>s. results (JStr s) \<noteq> None) (map fst (stocks cfg))"
    by blast
  have "send_ticker cfg http = Inr (map (\<lambda>channel. (channel, Ticker parts)) (cfg_channels cfg))"
    using parts(1) by (simp add: send_ticker_def format_ticker_def ebind_def results_def Let_def)
  moreover have "map part_symbol parts = filter (echoed_by cfg http) (map fst (stocks cfg))"
    using parts(2) by (simp add: results_def results_echoed del: not_None_eq)
  ultimately show ?thesis by blast
qed

lemma send_ticker_drops_raise:
  assumes "get_daily http symbol = Inl e"
  shows "\<exists>parts. send_ticker cfg http = Inr (map (\<lambda>channel. (channel, Ticker parts)) (cfg_channels cfg)) \<and>
           (echoes_asked cfg http \<longrightarrow> symbol \<notin> set (map part_symbol parts))"
proof -
  from send_ticker_parts [of cfg http] obtain parts where
    parts: "send_ticker cfg http = Inr (map (\<lambda>channel. (channel, Ticker parts)) (cfg_channels cfg))"
      "map part_symbol parts = filter (echoed_by cfg http) (map fst (stocks cfg))" by blast
  have "symbol \<notin> set (map part_symbol parts)" if ea: "echoes_asked cfg http"
  proof
    assume "symbol \<in> set (map part_symbol parts)"
    with parts(2) have mem: "symbol \<in> set (map fst (stocks cfg))" and ech: "echoed_by cfg http symbol"
      by simp_all
    from echoed_iff_succeeded [OF ea mem] ech have "ticker_succeeded http symbol" by simp
    with assms show False by (simp add: ticker_succeeded_def ticker_result_def)
  qed
  with parts(1) show ?thesis by blast
qed

lemma predictions_loop_handles_raise:
  "get_daily http symbol = Inl e \<Longrightarrow>
   predictions_loop cfg now http (symbol # rest) st =
   predictions_loop cfg now http rest
     (st\<lparr>dp_sent := dp_sent st @
            map (\<lambda>channel. (channel, PredictionError symbol)) (cfg_channels cfg)\<rparr>)"
  by (simp add: ebind_def)

text \<open>
  C4, as amended. A quote fetch raises an exception to its caller when the request fails
  and when the body of the response is not a JSON object, whatever the status code, which
  is never read. When the fetch raises, no caller raises. \<open>check\<close>, unless it ignores the
  message as one relayed by a user who is not a relay bot, sends "I couldn't look that
  symbol up" for the nick that asked and returns; \<open>predict\<close> sends the same for the
  sender's own nick and leaves the store as it was. The resolution loop sends the error
  of the symbol to every channel and goes on to the next symbol. In the broadcast the
  failed fetch adds nothing to the results, the message is sent, and the symbol is not
  in the digest when every response carries the symbol it was asked for.
\<close>

theorem fetch_failures_raise:
  "make_iex_request ConnectionFailed = Inl RequestException \<and>
   make_iex_request (Response status_code NotJson) = Inl ValueError \<and>
   make_iex_request (Response status_code JsonOther) = Inl TypeError \<and>
   (get_daily http (upper group2) = Inl e \<and>
    \<not> (group_given group1 \<and> \<not> is_relay_bot cfg usr) \<longrightarrow>
      check strip_formatting cfg http usr channel group1 group2 =
        Inr [(channel, CouldNotLookUp
               (case group1 of
                  None \<Rightarrow> u_nick usr
                | Some g \<Rightarrow> if g = [] then u_nick usr else strip_formatting g))] \<and>
      predict strip_formatting cfg now when_text http db usr channel
        group1 group2 group3 group4 group5
        = (None, db, [(channel, CouldNotLookUp (u_nick usr))])) \<and>
   (get_daily http symbol = Inl e \<longrightarrow>
      predictions_loop cfg now http (symbol # rest) st =
        predictions_loop cfg now http rest
          (st\<lparr>dp_sent := dp_sent st @
                 map (\<lambda>channel. (channel, PredictionError symbol)) (cfg_channels cfg)\<rparr>) \<and>
      add_result (ticker_result (get_daily http symbol)) results = results \<and>
      (\<exists>parts. send_ticker cfg http
                 = Inr (map (\<lambda>channel. (channel, Ticker parts)) (cfg_channels cfg)) \<and>
               (echoes_asked cfg http \<longrightarrow> symbol \<notin> set (map part_symbol parts))))"
  using check_answers_on_raise [of http group2 e group1 cfg usr strip_formatting channel]
    predict_answers_on_raise [of http group2 e group1 cfg usr strip_formatting now when_text db
      channel group3 group4 group5]
    predictions_loop_handles_raise [of http symbol e cfg now rest st]
    ticker_skips_raise [of http symbol e results]
    send_ticker_drops_raise [of http symbol e cfg]
  by (simp add: make_iex_request_def)

theorem fetch_failures_raise_witness:
  "get_daily (\<lambda>symbol. if symbol = ''AAA'' then ConnectionFailed
        else Response 200 (JsonObject
          [(''symbol'', JStr ''BBB''), (''latestPrice'', JNum 100),
           (''previousClose'', JNum 80), (''changePercent'', JNum (1/4))])) (upper ''AAA'')
     = Inl RequestException \<and>
   \<not> (group_given None \<and> \<not> is_relay_bot
     \<lparr>cfg_channels = [''#c''], cfg_stocks = [(''AAA'', ''Triple A''), (''BBB'', ''Big B'')],
      cfg_relay_bots = []\<rparr> \<lparr>u_nick = ''u1'', u_user = ''u'', u_vhost = ''h''\<rparr>) \<and>
   echoes_asked
     \<lparr>cfg_channels = [''#c''], cfg_stocks = [(''AAA'', ''Triple A''), (''BBB'', ''Big B'')],
      cfg_relay_bots = []\<rparr>
     (\<lambda>symbol. if symbol = ''AAA'' then ConnectionFailed
        else Response 200 (JsonObject
          [(''symbol'', JStr ''BBB''), (''latestPrice'', JNum 100),
           (''previousClose'', JNum 80), (''changePercent'', JNum (1/4))])) \<and>
   check (\<lambda>nick. nick)
     \<lparr>cfg_channels = [''#c''], cfg_stocks = [(''AAA'', ''Triple A''), (''BBB'', ''Big B'')],
      cfg_relay_bots = []\<rparr>
     (\<lambda>symbol. if symbol = ''AAA'' then ConnectionFailed
        else Response 200 (JsonObject
          [(''symbol'', JStr ''BBB''), (''latestPrice'', JNum 100),
           (''previousClose'', JNum 80), (''changePercent'', JNum (1/4))]))
     \<lparr>u_nick = ''u1'', u_user = ''u'', u_vhost = ''h''\<rparr> ''#c'' None ''AAA''
   = Inr [(''#c'', CouldNotLookUp ''u1'')] \<and>
   predict (\<lambda>nick. nick)
     \<lparr>cfg_channels = [''#c''], cfg_stocks = [(''AAA'', ''Triple A''), (''BBB'', ''Big B'')],
      cfg_relay_bots = []\<rparr>
     \<lparr>weekday = 0, hour = 12, minute = 0, second = 0\<rparr> ''t1''
     (\<lambda>symbol. if symbol = ''AAA'' then ConnectionFailed
        else Response 200 (JsonObject
          [(''symbol'', JStr ''BBB''), (''latestPrice'', JNum 100),
           (''previousClose'', JNum 80), (''changePercent'', JNum (1/4))])) []
     \<lparr>u_nick = ''u1'', u_user = ''u'', u_vhost = ''h''\<rparr> ''#c''
     None ''AAA'' (Some ''+'') (Some 5) None
   = (None, [], [(''#c'', CouldNotLookUp ''u1'')]) \<and>
   predictions_loop
     \<lparr>cfg_channels = [''#c''], cfg_stocks = [(''AAA'', ''Triple A''), (''BBB'', ''Big B'')],
      cfg_relay_bots = []\<rparr>
     \<lparr>weekday = 0, hour = 12, minute = 0, second = 0\<rparr>
     (\<lambda>symbol. if symbol = ''AAA'' then ConnectionFailed
        else Response 200 (JsonObject
          [(''symbol'', JStr ''BBB''), (''latestPrice'', JNum 100),
           (''previousClose'', JNum 80), (''changePercent'', JNum (1/4))])) [''AAA'']
     \<lparr>dp_db = [(''AAA'', [(''u1'', \<lparr>p_when = ''t1'', p_base = 100, p_prediction = 105\<rparr>)])],
      dp_sent = [], dp_prediction = None\<rparr>
   = (None,
      \<lparr>dp_db = [(''AAA'', [(''u1'', \<lparr>p_when = ''t1'', p_base = 100, p_prediction = 105\<rparr>)])],
       dp_sent = [(''#c'', PredictionError ''AAA'')], dp_prediction = None\<rparr>) \<and>
   send_ticker
     \<lparr>cfg_channels = [''#c''], cfg_stocks = [(''AAA'', ''Triple A''), (''BBB'', ''Big B'')],
      cfg_relay_bots = []\<rparr>
     (\<lambda>symbol. if symbol = ''AAA'' then ConnectionFailed
        else Response 200 (JsonObject
          [(''symbol'', JStr ''BBB''), (''latestPrice'', JNum 100),
           (''previousClose'', JNum 80), (''changePercent'', JNum (1/4))]))
   = Inr [(''#c'', Ticker [TickerPart ''Big B'' ''BBB'' (light_green 25)])]"
  using fetch_failures_raise
    [where status_code = 500
       and http = "\<lambda>symbol. if symbol = ''AAA'' then ConnectionFailed
        else Response 200 (JsonObject
          [(''symbol'', JStr ''BBB''), (''latestPrice'', JNum 100),
           (''previousClose'', JNum 80), (''changePercent'', JNum (1/4))])"
       and ?group2.0 = "''AAA''" and e = RequestException and strip_formatting = "\<lambda>nick. nick"
       and cfg = "\<lparr>cfg_channels = [''#c''],
                   cfg_stocks = [(''AAA'', ''Triple A''), (''BBB'', ''Big B'')],
                   cfg_relay_bots = []\<rparr>"
       and usr = "\<lparr>u_nick = ''u1'', u_user = ''u'', u_vhost = ''h''\<rparr>"
       and channel = "''#c''" and ?group1.0 = None
       and now = "\<lparr>weekday = 0, hour = 12, minute = 0, second = 0\<rparr>"
       and when_text = "''t1''" and db = "[]"
       and ?group3.0 = "Some ''+''" and ?group4.0 = "Some 5" and ?group5.0 = None
       and symbol = "''AAA''" and rest = "[]"
       and st = "\<lparr>dp_db = [(''AAA'', [(''u1'', \<lparr>p_when = ''t1'', p_base = 100, p_prediction = 105\<rparr>)])],
          dp_sent = [], dp_prediction = None\<rparr>"
       and results = "Map.empty :: json \<rightharpoonup> real"]
  by (simp add: upper_AAA get_daily_def make_iex_request_def check_def predict_def
      parse_prediction_def group_given_def ebind_def send_ticker_def stocks_def ordered_dict_def
      format_ticker_def format_symbol_def ticker_result_def collect_results_def add_result_def
      echoes_asked_def quote_of_data_def getitem_def py_float_def quote_field_def colorize_def)

text \<open>
  C4 as stated fails on a response that is not a 200 and carries the four fields: the fetch
  returns a quote like any other.
\<close>

theorem make_iex_request_ignores_status:
  "make_iex_request (Response 500 (JsonObject
      [(''symbol'', JStr ''AAA''), (''latestPrice'', JNum 100),
       (''previousClose'', JNum 80), (''changePercent'', JNum (1/4))]))
   = Inr (Some \<lparr>q_symbol = JStr ''AAA'', q_price = 100, q_previous_close = 80, q_change = 25\<rparr>)"
  by (simp add: make_iex_request_def quote_of_data_def ebind_def getitem_def py_float_def)

text \<open>
  A response that lacks a field: \<open>make_iex_request\<close> logs the \<open>KeyError\<close> and returns
  \<open>None\<close>, and \<open>check\<close>, whose \<open>try\<close> ends before \<open>data['price']\<close>, raises \<open>TypeError\<close>.
\<close>

lemma make_iex_request_missing_field:
  "make_iex_request (Response 200 (JsonObject [(''symbol'', JStr ''AAA'')])) = Inr None"
  by (simp add: make_iex_request_def quote_of_data_def ebind_def getitem_def py_float_def)

lemma check_raises_on_missing_field:
  "check strip_formatting cfg (\<lambda>symbol. Response 200 (JsonObject [(''symbol'', JStr ''AAA'')]))
     \<lparr>u_nick = ''u1'', u_user = ''u'', u_vhost = ''h''\<rparr> ''#c'' None ''AAA''
   = Inl TypeError"
  by (simp add: check_def upper_AAA group_given_def get_daily_def make_iex_request_def
      quote_of_data_def ebind_def getitem_def py_float_def quote_field_def)

end
